theory Spec2Isabelle
  imports Main "HOL-Library.Word"
begin

section \<open>Configuration and C types (ecewo-fs.h)\<close>

text \<open>
  The two compile-time limits, at the defaults the header gives them.
\<close>

definition ECEWO_FS_MAX_CONCURRENT_OPS :: int where
  "ECEWO_FS_MAX_CONCURRENT_OPS = 100"

definition ECEWO_FS_MAX_FILE_SIZE :: int where
  "ECEWO_FS_MAX_FILE_SIZE = 100 * 1024 * 1024"

text \<open>
  \<open>size_t\<close> and \<open>uint64_t\<close> are 64-bit words (an LP64 target); they wrap around.
  The \<open>int\<close> counters of the registry are mathematical integers: \<open>active_operations\<close>
  and \<open>peak_operations\<close> stay within \<open>0 .. 100\<close> in every reachable state (shown below),
  so their increments never overflow. A \<open>char *\<close> is a \<open>string option\<close>, \<open>None\<close> being
  \<open>NULL\<close>; a function pointer and the opaque \<open>user_data\<close> are identities.
\<close>

type_synonym uint64_t = "64 word"
type_synonym size_t = "64 word"
type_synonym byte = "8 word"
type_synonym fn_ptr = nat
type_synonym void_ptr = nat
type_synonym Arena = nat
type_synonym uv_file = int

record uv_stat_t =
  st_mode :: uint64_t
  st_size :: uint64_t
  st_atim :: uint64_t
  st_mtim :: uint64_t
  st_birthtim :: uint64_t

record fs_stats_t =
  active_operations :: int
  peak_operations :: int
  queued_operations :: int
  total_reads :: uint64_t
  total_writes :: uint64_t
  total_bytes_read :: uint64_t
  total_bytes_written :: uint64_t
  failed_operations :: int

section \<open>The registry: \<open>fs_module_state_t\<close> and its operations\<close>

text \<open>
  The mutex field is left out: every function below runs its critical section as one
  step. Only \<open>fs_cleanup\<close>, which gives the lock away while it sleeps, shows the lock
  (as events of the trace).
\<close>

record fs_module_state_t =
  active_operations :: int
  peak_operations :: int
  queued_operations :: int
  total_reads :: uint64_t
  total_writes :: uint64_t
  total_bytes_read :: uint64_t
  total_bytes_written :: uint64_t
  failed_operations :: int
  initialized :: bool

text \<open>\<open>static fs_module_state_t fs_state = { 0 };\<close>\<close>

definition fs_state_zero :: fs_module_state_t where
  "fs_state_zero =
     \<lparr>active_operations = 0, peak_operations = 0, queued_operations = 0,
      total_reads = 0, total_writes = 0, total_bytes_read = 0, total_bytes_written = 0,
      failed_operations = 0, initialized = False\<rparr>"

text \<open>\<open>fs_init\<close>; \<open>mutex_ok\<close> is whether \<open>uv_mutex_init\<close> returned 0.\<close>

definition fs_init :: "bool \<Rightarrow> fs_module_state_t \<Rightarrow> int \<times> fs_module_state_t" where
  "fs_init mutex_ok s =
     (if initialized s then (0, s)
      else if \<not> mutex_ok then (- 1, s)
      else (0, s\<lparr>initialized := True\<rparr>))"

text \<open>
  \<open>fs_get_stats\<close> writes through the pointer \<open>stats\<close>. The argument is the caller's struct
  as it is before the call (\<open>None\<close> for a null pointer), the value is the struct after it.
\<close>

definition fs_get_stats :: "fs_stats_t option \<Rightarrow> fs_module_state_t \<Rightarrow> fs_stats_t option" where
  "fs_get_stats stats s =
     (case stats of
        None \<Rightarrow> None
      | Some old \<Rightarrow>
          if \<not> initialized s then Some old
          else Some (old\<lparr>fs_stats_t.active_operations := active_operations s,
                         fs_stats_t.peak_operations := peak_operations s,
                         fs_stats_t.queued_operations := queued_operations s,
                         fs_stats_t.total_reads := total_reads s,
                         fs_stats_t.total_writes := total_writes s,
                         fs_stats_t.total_bytes_read := total_bytes_read s,
                         fs_stats_t.total_bytes_written := total_bytes_written s,
                         fs_stats_t.failed_operations := failed_operations s\<rparr>))"

definition fs_reset_stats :: "fs_module_state_t \<Rightarrow> fs_module_state_t" where
  "fs_reset_stats s =
     (if \<not> initialized s then s
      else s\<lparr>total_reads := 0, total_writes := 0, total_bytes_read := 0,
             total_bytes_written := 0, failed_operations := 0, peak_operations := 0\<rparr>)"

text \<open>The C comparison yields the \<open>int\<close> 1 or 0.\<close>

definition fs_can_accept_operation :: "fs_module_state_t \<Rightarrow> int" where
  "fs_can_accept_operation s =
     (if \<not> initialized s then - 1
      else if active_operations s < ECEWO_FS_MAX_CONCURRENT_OPS then 1 else 0)"


definition fs_begin_operation :: "fs_module_state_t \<Rightarrow> fs_module_state_t" where
  "fs_begin_operation s =
     (let s = s\<lparr>active_operations := active_operations s + 1\<rparr>
      in if active_operations s > peak_operations s
         then s\<lparr>peak_operations := active_operations s\<rparr> else s)"

definition fs_end_operation :: "fs_module_state_t \<Rightarrow> fs_module_state_t" where
  "fs_end_operation s =
     (if active_operations s > 0
      then s\<lparr>active_operations := active_operations s - 1\<rparr> else s)"

definition fs_record_read :: "size_t \<Rightarrow> fs_module_state_t \<Rightarrow> fs_module_state_t" where
  "fs_record_read bytes s =
     s\<lparr>total_reads := total_reads s + 1, total_bytes_read := total_bytes_read s + bytes\<rparr>"

definition fs_record_write :: "size_t \<Rightarrow> fs_module_state_t \<Rightarrow> fs_module_state_t" where
  "fs_record_write bytes s =
     s\<lparr>total_writes := total_writes s + 1,
       total_bytes_written := total_bytes_written s + bytes\<rparr>"

definition fs_record_error :: "fs_module_state_t \<Rightarrow> fs_module_state_t" where
  "fs_record_error s = s\<lparr>failed_operations := failed_operations s + 1\<rparr>"

section \<open>The Operation Record and the world around it\<close>

text \<open>
  \<open>fs_request_t\<close>. The embedded \<open>uv_fs_t fs_req\<close> is the handle the reactor works on;
  what a completion handler reads from it is the argument \<open>uv_fs_t\<close> below. The fields
  \<open>size\<close> and \<open>file\<close> carry a prime. \<open>data\<close> holds the content of the buffer it points to.
\<close>

record fs_request_t =
  arena :: "Arena option"
  user_data :: void_ptr
  read_callback :: "fn_ptr option"
  write_callback :: "fn_ptr option"
  stat_callback :: "fn_ptr option"
  data :: "byte list option"
  size' :: size_t
  stat :: uv_stat_t
  path :: "string option"
  path2 :: "string option"
  file' :: uv_file
  file_size :: size_t
  error_msg :: "string option"

text \<open>What \<open>calloc(1, sizeof(fs_request_t))\<close> returns on success: all bits zero.\<close>

definition calloc_fs_request_t :: fs_request_t where
  "calloc_fs_request_t =
     \<lparr>arena = None, user_data = 0, read_callback = None, write_callback = None,
      stat_callback = None, data = None, size' = 0,
      stat = \<lparr>st_mode = 0, st_size = 0, st_atim = 0, st_mtim = 0, st_birthtim = 0\<rparr>,
      path = None, path2 = None, file' = 0, file_size = 0, error_msg = None\<rparr>"

text \<open>
  The reactor (libuv) is outside the repository. A call into it is recorded as an event
  of the trace; the completion handler registered with the call is named by a tag.
\<close>

datatype uv_fs_cb =
    On_read_stat | On_read_open | On_read_data | On_read_close
  | On_write_open | On_write_data | On_write_close
  | On_stat | On_simple_op | On_rename

datatype open_flag =
    UV_FS_O_RDONLY | UV_FS_O_WRONLY | UV_FS_O_CREAT | UV_FS_O_TRUNC | UV_FS_O_APPEND

text \<open>
  The arguments are those of the C call, the loop and the request handle apart:
  \<open>uv_fs_read\<close> and \<open>uv_fs_write\<close> take the file, the buffer (for a write: its content),
  the buffer length given to \<open>uv_buf_init\<close> and the offset.
\<close>

datatype uv_call =
    uv_fs_stat "string option"
  | uv_fs_open "string option" "open_flag set" int
  | uv_fs_read uv_file nat int
  | uv_fs_write uv_file "byte list option" nat int
  | uv_fs_close uv_file
  | uv_fs_unlink "string option"
  | uv_fs_rmdir "string option"
  | uv_fs_mkdir "string option" int
  | uv_fs_rename "string option" "string option"

datatype mem_obj = M_req | M_path | M_path2 | M_error_msg | M_data

text \<open>
  The events of a trace, in the order the code performs them:
  \<^item> \<open>Alloc_req ok\<close>: the \<open>calloc\<close> of the Record and whether it succeeded;
  \<^item> \<open>Alloc_data a n ok\<close>: \<open>arena_alloc(a, n)\<close> when \<open>a\<close> is an arena, \<open>malloc(n)\<close> otherwise;
  \<^item> \<open>Free m\<close>: \<open>free\<close> of one of the Record's objects, or of the Record;
  \<^item> \<open>Issue c k\<close>: the call \<open>c\<close> into the reactor with completion handler \<open>k\<close>
    (\<open>None\<close>: a null handler, the call is synchronous);
  \<^item> \<open>Call_read\<close>, \<open>Call_write\<close>, \<open>Call_stat\<close>: an invocation of the caller's callback with
    its arguments (error, data, size, user data);
  \<^item> \<open>Stderr\<close>: a diagnostic on \<open>stderr\<close>, its format string and integer arguments;
  \<^item> the mutex and sleep calls of \<open>fs_cleanup\<close>.
\<close>

datatype action =
    Alloc_req bool
  | Alloc_data "Arena option" nat bool
  | Free mem_obj
  | Issue uv_call "uv_fs_cb option"
  | uv_fs_req_cleanup
  | Call_read fn_ptr "string option" "byte list option" size_t void_ptr
  | Call_write fn_ptr "string option" void_ptr
  | Call_stat fn_ptr "string option" "uv_stat_t option" void_ptr
  | Stderr string "int list"
  | uv_mutex_lock
  | uv_mutex_unlock
  | uv_sleep nat
  | uv_mutex_destroy

text \<open>
  The state the engine runs in: the registry, the Record of the operation under study
  (\<open>None\<close> before it is allocated and after it is freed), the completion the reactor
  owes for it (the call made and the handler registered with it), the trace of events
  so far, and the caller's memory: the bytes that lie at an address, from that address
  on. The engine reads the caller's memory in one place, the \<open>memcpy\<close> of
  \<open>fs_write_internal\<close>; the caller may store into it at any time.
\<close>

record world =
  fs_state :: fs_module_state_t
  request :: "fs_request_t option"
  pending :: "(uv_call \<times> uv_fs_cb) option"
  trace :: "action list"
  caller_mem :: "void_ptr \<Rightarrow> byte list"

text \<open>
  What the code cannot decide: the outcome of each allocation of one activation, the
  content of fresh memory, libuv's two message tables, and the value the reactor returns
  from the call an entry point makes.
\<close>

record env =
  calloc_ok :: bool
  strdup_ok :: bool
  strdup2_ok :: bool
  malloc_data_ok :: bool
  malloc_msg_ok :: bool
  fresh_byte :: "nat \<Rightarrow> byte"
  uv_err_name :: "int \<Rightarrow> string"
  uv_strerror :: "int \<Rightarrow> string"
  uv_issue :: int

text \<open>
  What a completion handler reads from \<open>uv_req\<close>: \<open>result\<close> and \<open>statbuf\<close>; and, for a read,
  the bytes the reactor has stored at the start of the buffer it was given.
\<close>

record uv_fs_t =
  result :: int
  statbuf :: uv_stat_t
  filled :: "byte list"

definition emit :: "action \<Rightarrow> world \<Rightarrow> world" where
  "emit a w = w\<lparr>trace := trace w @ [a]\<rparr>"

definition on_state :: "(fs_module_state_t \<Rightarrow> fs_module_state_t) \<Rightarrow> world \<Rightarrow> world" where
  "on_state f w = w\<lparr>fs_state := f (fs_state w)\<rparr>"

text \<open>
  A chain-internal call into the reactor: the call is made and the handler is registered
  with it. The source drops the value the call returns, so the handler that makes the
  call goes on the same way whether the reactor took the call or refused it; in each
  handler the call is the last statement. What the reactor does with the call comes
  next, as an event of its own: it completes it (\<open>deliver\<close>) or it has refused it
  (\<open>refuse\<close>, below).
\<close>

definition issue :: "uv_call \<Rightarrow> uv_fs_cb \<Rightarrow> fs_request_t \<Rightarrow> world \<Rightarrow> world" where
  "issue c k req w =
     (emit (Issue c (Some k)) w)\<lparr>request := Some req, pending := Some (c, k)\<rparr>"

text \<open>
  The call an entry point made was accepted (it returned no error): the Record stays
  live and the reactor owes its completion.
\<close>

definition accepted :: "uv_call \<Rightarrow> uv_fs_cb \<Rightarrow> fs_request_t \<Rightarrow> world \<Rightarrow> world" where
  "accepted c k req w = w\<lparr>request := Some req, pending := Some (c, k)\<rparr>"

text \<open>\<open>snprintf(buf, 256, "%s: %s", ...)\<close> keeps at most 255 characters.\<close>

definition make_error_msg :: "env \<Rightarrow> int \<Rightarrow> string option" where
  "make_error_msg e errcode =
     (if \<not> malloc_msg_ok e then None
      else Some (take 255 (uv_err_name e errcode @ '': '' @ uv_strerror e errcode)))"

definition fs_request_cleanup :: "fs_request_t option \<Rightarrow> bool \<Rightarrow> world \<Rightarrow> world" where
  "fs_request_cleanup r free_data w =
     (case r of
        None \<Rightarrow> w
      | Some req \<Rightarrow>
          let w = (if path req \<noteq> None then emit (Free M_path) w else w);
              w = (if path2 req \<noteq> None then emit (Free M_path2) w else w);
              w = (if error_msg req \<noteq> None then emit (Free M_error_msg) w else w);
              w = (if free_data \<and> data req \<noteq> None \<and> arena req = None
                   then emit (Free M_data) w else w)
          in (emit (Free M_req) w)\<lparr>request := None\<rparr>)"

text \<open>\<open>if (cb) cb(...)\<close> for each of the three callback fields.\<close>

definition call_read ::
  "fn_ptr option \<Rightarrow> string option \<Rightarrow> byte list option \<Rightarrow> size_t \<Rightarrow> void_ptr \<Rightarrow> world \<Rightarrow> world" where
  "call_read cb err d n ud w =
     (case cb of None \<Rightarrow> w | Some f \<Rightarrow> emit (Call_read f err d n ud) w)"

definition call_write :: "fn_ptr option \<Rightarrow> string option \<Rightarrow> void_ptr \<Rightarrow> world \<Rightarrow> world" where
  "call_write cb err ud w =
     (case cb of None \<Rightarrow> w | Some f \<Rightarrow> emit (Call_write f err ud) w)"

definition call_stat ::
  "fn_ptr option \<Rightarrow> string option \<Rightarrow> uv_stat_t option \<Rightarrow> void_ptr \<Rightarrow> world \<Rightarrow> world" where
  "call_stat cb err st ud w =
     (case cb of None \<Rightarrow> w | Some f \<Rightarrow> emit (Call_stat f err st ud) w)"

text \<open>
  Bytes stored at the start of a buffer; the rest of the buffer stays as it was and its
  length does not change. This is what \<open>memcpy\<close> does to its destination and what the
  reactor does to the buffer of a read.
\<close>

definition store_bytes :: "byte list \<Rightarrow> byte list \<Rightarrow> byte list" where
  "store_bytes bs buf = take (length buf) (bs @ drop (length bs) buf)"

text \<open>\<open>req->error_msg ? req->error_msg : fallback\<close>\<close>

definition or_else :: "string option \<Rightarrow> string \<Rightarrow> string option" where
  "or_else m fallback = (case m of Some s \<Rightarrow> Some s | None \<Rightarrow> Some fallback)"

section \<open>The Read chain\<close>

definition read_close_cb :: "env \<Rightarrow> uv_fs_t \<Rightarrow> fs_request_t \<Rightarrow> world \<Rightarrow> world" where
  "read_close_cb e uv req w =
     (let w = emit uv_fs_req_cleanup w;
          w = call_read (read_callback req) None (data req) (size' req) (user_data req) w;
          w = on_state (fs_record_read (size' req)) w;
          w = on_state fs_end_operation w
      in fs_request_cleanup (Some req) False w)"

text \<open>
  The handler sees the buffer as the reactor left it. \<open>req->data[req->size] = '\0'\<close> is a
  list update; it stays inside the buffer of \<open>file_size + 1\<close> bytes as long as the
  reactor reports no more bytes than the \<open>file_size\<close> it was asked for.
\<close>

definition read_data_cb :: "env \<Rightarrow> uv_fs_t \<Rightarrow> fs_request_t \<Rightarrow> world \<Rightarrow> world" where
  "read_data_cb e uv req w =
     (if result uv < 0 then
        let req = req\<lparr>error_msg := make_error_msg e (result uv)\<rparr>;
            w = emit uv_fs_req_cleanup w;
            w = emit (Issue (uv_fs_close (file' req)) None) w;
            w = call_read (read_callback req) (or_else (error_msg req) ''Read failed'')
                  None 0 (user_data req) w;
            w = on_state fs_record_error w;
            w = on_state fs_end_operation w
        in fs_request_cleanup (Some req) True w
      else
        let req = req\<lparr>size' := word_of_int (result uv)\<rparr>;
            req = req\<lparr>data := map_option (\<lambda>d. d[unat (size' req) := 0]) (data req)\<rparr>;
            w = emit uv_fs_req_cleanup w
        in issue (uv_fs_close (file' req)) On_read_close req w)"

text \<open>
  The destination buffer is allocated here, after the open has completed. Its length is
  \<open>file_size + 1\<close> in \<open>size_t\<close> arithmetic; its content is whatever the allocator left.
  The length given to \<open>uv_buf_init\<close> is \<open>(unsigned int)req->file_size\<close>.
\<close>

definition read_open_cb :: "env \<Rightarrow> uv_fs_t \<Rightarrow> fs_request_t \<Rightarrow> world \<Rightarrow> world" where
  "read_open_cb e uv req w =
     (if result uv < 0 then
        let req = req\<lparr>error_msg := make_error_msg e (result uv)\<rparr>;
            w = emit uv_fs_req_cleanup w;
            w = call_read (read_callback req) (or_else (error_msg req) ''Open failed'')
                  None 0 (user_data req) w;
            w = on_state fs_record_error w;
            w = on_state fs_end_operation w
        in fs_request_cleanup (Some req) False w
      else
        let req = req\<lparr>file' := result uv\<rparr>;
            w = emit uv_fs_req_cleanup w;
            n = unat (file_size req + 1);
            w = emit (Alloc_data (arena req) n (malloc_data_ok e)) w;
            req = req\<lparr>data := (if malloc_data_ok e then Some (map (fresh_byte e) [0..<n])
                                else None)\<rparr>
        in if data req = None then
             let w = emit (Issue (uv_fs_close (file' req)) None) w;
                 w = call_read (read_callback req) (Some ''Memory allocation failed'')
                       None 0 (user_data req) w;
                 w = on_state fs_record_error w;
                 w = on_state fs_end_operation w
             in fs_request_cleanup (Some req) False w
           else
             issue (uv_fs_read (file' req) (unat (ucast (file_size req) :: 32 word)) 0)
               On_read_data req w)"

text \<open>
  \<open>req->file_size > ECEWO_FS_MAX_FILE_SIZE\<close> compares in \<open>size_t\<close>; the limit is positive
  and below \<open>2 ^ 64\<close>, so the comparison is the one of the unsigned values.
\<close>

definition read_stat_cb :: "env \<Rightarrow> uv_fs_t \<Rightarrow> fs_request_t \<Rightarrow> world \<Rightarrow> world" where
  "read_stat_cb e uv req w =
     (if result uv < 0 then
        let req = req\<lparr>error_msg := make_error_msg e (result uv)\<rparr>;
            w = emit uv_fs_req_cleanup w;
            w = call_read (read_callback req) (or_else (error_msg req) ''Stat failed'')
                  None 0 (user_data req) w;
            w = on_state fs_record_error w;
            w = on_state fs_end_operation w
        in fs_request_cleanup (Some req) False w
      else
        let req = req\<lparr>file_size := st_size (statbuf uv)\<rparr>
        in if uint (file_size req) > ECEWO_FS_MAX_FILE_SIZE then
             let w = emit uv_fs_req_cleanup w;
                 w = call_read (read_callback req) (Some ''File too large'')
                       None 0 (user_data req) w;
                 w = on_state fs_record_error w;
                 w = on_state fs_end_operation w
             in fs_request_cleanup (Some req) False w
           else
             let w = emit uv_fs_req_cleanup w
             in issue (uv_fs_open (path req) {UV_FS_O_RDONLY} 0) On_read_open req w)"

text \<open>
  The entry point. \<open>!fs_can_accept_operation()\<close> holds when the function returned 0.
  The value is the pair of the \<open>int\<close> returned and the world after the call.
\<close>

definition fs_read_file ::
  "env \<Rightarrow> string option \<Rightarrow> Arena option \<Rightarrow> fn_ptr option \<Rightarrow> void_ptr \<Rightarrow> world \<Rightarrow> int \<times> world" where
  "fs_read_file e path_arg arena_arg callback ud w =
     (if path_arg = None \<or> callback = None then
        (- 1, emit (Stderr ''[ecewo-fs] fs_read_file: Invalid arguments'' []) w)
      else if \<not> initialized (fs_state w) then
        (- 1, emit (Stderr ''[ecewo-fs] Module not initialized - call fs_init() first'' []) w)
      else if fs_can_accept_operation (fs_state w) = 0 then
        (- 1, emit (Stderr ''[ecewo-fs] Too many concurrent operations (%d/%d)''
                 [active_operations (fs_state w), ECEWO_FS_MAX_CONCURRENT_OPS]) w)
      else
        let w = emit (Alloc_req (calloc_ok e)) w
        in if \<not> calloc_ok e then
             (- 1, emit (Stderr ''[ecewo-fs] Memory allocation failed'' []) w)
           else
             let req = calloc_fs_request_t
                         \<lparr>arena := arena_arg, user_data := ud, read_callback := callback,
                          path := (if strdup_ok e then path_arg else None)\<rparr>
             in if path req = None then (- 1, emit (Free M_req) w)
                else
                  let w = on_state fs_begin_operation w;
                      w = emit (Issue (uv_fs_stat (path req)) (Some On_read_stat)) w;
                      r = uv_issue e
                  in if r < 0 then
                       let req = req\<lparr>error_msg := make_error_msg e r\<rparr>;
                           w = call_read callback (or_else (error_msg req) ''Stat failed'')
                                 None 0 ud w;
                           w = on_state fs_record_error w;
                           w = on_state fs_end_operation w
                       in (- 1, fs_request_cleanup (Some req) False w)
                     else (0, accepted (uv_fs_stat (path req)) On_read_stat req w))"

section \<open>The Write and Append chain\<close>

definition write_close_cb :: "env \<Rightarrow> uv_fs_t \<Rightarrow> fs_request_t \<Rightarrow> world \<Rightarrow> world" where
  "write_close_cb e uv req w =
     (let w = emit uv_fs_req_cleanup w;
          w = call_write (write_callback req) None (user_data req) w;
          w = on_state (fs_record_write (size' req)) w;
          w = on_state fs_end_operation w
      in fs_request_cleanup (Some req) True w)"

definition write_data_cb :: "env \<Rightarrow> uv_fs_t \<Rightarrow> fs_request_t \<Rightarrow> world \<Rightarrow> world" where
  "write_data_cb e uv req w =
     (if result uv < 0 then
        let req = req\<lparr>error_msg := make_error_msg e (result uv)\<rparr>;
            w = emit uv_fs_req_cleanup w;
            w = emit (Issue (uv_fs_close (file' req)) None) w;
            w = call_write (write_callback req) (or_else (error_msg req) ''Write failed'')
                  (user_data req) w;
            w = on_state fs_record_error w;
            w = on_state fs_end_operation w
        in fs_request_cleanup (Some req) True w
      else
        let req = req\<lparr>size' := word_of_int (result uv)\<rparr>;
            w = emit uv_fs_req_cleanup w
        in issue (uv_fs_close (file' req)) On_write_close req w)"

definition write_open_cb :: "env \<Rightarrow> uv_fs_t \<Rightarrow> fs_request_t \<Rightarrow> world \<Rightarrow> world" where
  "write_open_cb e uv req w =
     (if result uv < 0 then
        let req = req\<lparr>error_msg := make_error_msg e (result uv)\<rparr>;
            w = emit uv_fs_req_cleanup w;
            w = call_write (write_callback req) (or_else (error_msg req) ''Open failed'')
                  (user_data req) w;
            w = on_state fs_record_error w;
            w = on_state fs_end_operation w
        in fs_request_cleanup (Some req) True w
      else
        let req = req\<lparr>file' := result uv\<rparr>;
            w = emit uv_fs_req_cleanup w
        in issue (uv_fs_write (file' req) (data req)
                    (unat (ucast (size' req) :: 32 word)) 0) On_write_data req w)"

text \<open>
  \<open>data_arg\<close> is the caller's pointer (\<open>None\<close> when null). \<open>malloc(size)\<close> gives the Record
  a buffer of its own, and \<open>memcpy(req->data, data, size)\<close> stores into it the first
  \<open>size\<close> bytes that lie at the caller's pointer at the time of the call; the caller's
  buffer has to hold that many. The Record keeps the bytes, not the pointer.
\<close>

definition fs_write_internal ::
  "env \<Rightarrow> string option \<Rightarrow> void_ptr option \<Rightarrow> size_t \<Rightarrow> fn_ptr option \<Rightarrow> void_ptr \<Rightarrow>
     open_flag set \<Rightarrow> world \<Rightarrow> int \<times> world" where
  "fs_write_internal e path_arg data_arg size_arg callback ud flags w =
     (if path_arg = None \<or> data_arg = None \<or> callback = None then
        (- 1, emit (Stderr ''[ecewo-fs] fs_write: Invalid arguments'' []) w)
      else if \<not> initialized (fs_state w) then
        (- 1, emit (Stderr ''[ecewo-fs] Module not initialized - call fs_init() first'' []) w)
      else if fs_can_accept_operation (fs_state w) = 0 then
        (- 1, emit (Stderr ''[ecewo-fs] Too many concurrent operations'' []) w)
      else if uint size_arg > ECEWO_FS_MAX_FILE_SIZE then
        (- 1, emit (Stderr ''[ecewo-fs] Data too large (%zu bytes > %d max)''
                 [uint size_arg, ECEWO_FS_MAX_FILE_SIZE]) w)
      else
        let w = emit (Alloc_req (calloc_ok e)) w
        in if \<not> calloc_ok e then (- 1, w)
           else
             let w = emit (Alloc_data None (unat size_arg) (malloc_data_ok e)) w;
                 req = calloc_fs_request_t
                         \<lparr>user_data := ud, write_callback := callback,
                          path := (if strdup_ok e then path_arg else None),
                          data := (if malloc_data_ok e
                                   then Some (map (fresh_byte e) [0..<unat size_arg]) else None),
                          size' := size_arg\<rparr>
             in if path req = None \<or> data req = None then
                  (- 1, fs_request_cleanup (Some req) True w)
                else
                  let src = (case data_arg of None \<Rightarrow> [] | Some a \<Rightarrow> caller_mem w a);
                      req = req\<lparr>data := map_option (store_bytes (take (unat size_arg) src))
                                         (data req)\<rparr>;
                      w = on_state fs_begin_operation w;
                      w = emit (Issue (uv_fs_open (path req) flags 420) (Some On_write_open)) w;
                      r = uv_issue e
                  in if r < 0 then
                       let req = req\<lparr>error_msg := make_error_msg e r\<rparr>;
                           w = call_write callback (or_else (error_msg req) ''Open failed'') ud w;
                           w = on_state fs_record_error w;
                           w = on_state fs_end_operation w
                       in (- 1, fs_request_cleanup (Some req) True w)
                     else (0, accepted (uv_fs_open (path req) flags 420) On_write_open req w))"

definition fs_write_file ::
  "env \<Rightarrow> string option \<Rightarrow> void_ptr option \<Rightarrow> size_t \<Rightarrow> fn_ptr option \<Rightarrow> void_ptr \<Rightarrow>
     world \<Rightarrow> int \<times> world" where
  "fs_write_file e path_arg data_arg size_arg callback ud w =
     fs_write_internal e path_arg data_arg size_arg callback ud
       {UV_FS_O_WRONLY, UV_FS_O_CREAT, UV_FS_O_TRUNC} w"

definition fs_append_file ::
  "env \<Rightarrow> string option \<Rightarrow> void_ptr option \<Rightarrow> size_t \<Rightarrow> fn_ptr option \<Rightarrow> void_ptr \<Rightarrow>
     world \<Rightarrow> int \<times> world" where
  "fs_append_file e path_arg data_arg size_arg callback ud w =
     fs_write_internal e path_arg data_arg size_arg callback ud
       {UV_FS_O_WRONLY, UV_FS_O_CREAT, UV_FS_O_APPEND} w"

section \<open>Stat, the single-step operations and Rename\<close>

definition stat_cb :: "env \<Rightarrow> uv_fs_t \<Rightarrow> fs_request_t \<Rightarrow> world \<Rightarrow> world" where
  "stat_cb e uv req w =
     (if result uv < 0 then
        let req = req\<lparr>error_msg := make_error_msg e (result uv)\<rparr>;
            w = emit uv_fs_req_cleanup w;
            w = call_stat (stat_callback req) (or_else (error_msg req) ''Stat failed'')
                  None (user_data req) w;
            w = on_state fs_record_error w;
            w = on_state fs_end_operation w
        in fs_request_cleanup (Some req) False w
      else
        let req = req\<lparr>stat := statbuf uv\<rparr>;
            w = emit uv_fs_req_cleanup w;
            w = call_stat (stat_callback req) None (Some (stat req)) (user_data req) w;
            w = on_state fs_end_operation w
        in fs_request_cleanup (Some req) False w)"

definition fs_stat ::
  "env \<Rightarrow> string option \<Rightarrow> fn_ptr option \<Rightarrow> void_ptr \<Rightarrow> world \<Rightarrow> int \<times> world" where
  "fs_stat e path_arg callback ud w =
     (if path_arg = None \<or> callback = None then (- 1, w)
      else if \<not> initialized (fs_state w) then
        (- 1, emit (Stderr ''[ecewo-fs] Module not initialized'' []) w)
      else if fs_can_accept_operation (fs_state w) = 0 then (- 1, w)
      else
        let w = emit (Alloc_req (calloc_ok e)) w
        in if \<not> calloc_ok e then (- 1, w)
           else
             let req = calloc_fs_request_t
                         \<lparr>user_data := ud, stat_callback := callback,
                          path := (if strdup_ok e then path_arg else None)\<rparr>
             in if path req = None then (- 1, emit (Free M_req) w)
                else
                  let w = on_state fs_begin_operation w;
                      w = emit (Issue (uv_fs_stat (path req)) (Some On_stat)) w;
                      r = uv_issue e
                  in if r < 0 then
                       let req = req\<lparr>error_msg := make_error_msg e r\<rparr>;
                           w = call_stat callback (or_else (error_msg req) ''Stat failed'')
                                 None ud w;
                           w = on_state fs_record_error w;
                           w = on_state fs_end_operation w
                       in (- 1, fs_request_cleanup (Some req) False w)
                     else (0, accepted (uv_fs_stat (path req)) On_stat req w))"

text \<open>
  \<open>char *error = NULL; if (uv_req->result < 0) { ...; error = req->error_msg; ... }\<close>:
  the callback receives \<open>req->error_msg\<close> as it is.
\<close>

definition simple_op_cb :: "env \<Rightarrow> uv_fs_t \<Rightarrow> fs_request_t \<Rightarrow> world \<Rightarrow> world" where
  "simple_op_cb e uv req w =
     (let (req, error, w) =
            (if result uv < 0 then
               let req = req\<lparr>error_msg := make_error_msg e (result uv)\<rparr>
               in (req, error_msg req, on_state fs_record_error w)
             else (req, None, w));
          w = emit uv_fs_req_cleanup w;
          w = call_write (write_callback req) error (user_data req) w;
          w = on_state fs_end_operation w
      in fs_request_cleanup (Some req) False w)"

text \<open>
  The function pointer \<open>op_fn\<close> is \<open>uv_fs_unlink\<close> or \<open>uv_fs_rmdir\<close> (and \<open>uv_fs_mkdir\<close> for
  the variant with a mode): the constructor of the call it makes.
\<close>

definition fs_simple_op ::
  "env \<Rightarrow> string option \<Rightarrow> fn_ptr option \<Rightarrow> void_ptr \<Rightarrow> (string option \<Rightarrow> uv_call) \<Rightarrow>
     world \<Rightarrow> int \<times> world" where
  "fs_simple_op e path_arg callback ud op_fn w =
     (if path_arg = None \<or> callback = None then (- 1, w)
      else if \<not> initialized (fs_state w) \<or> fs_can_accept_operation (fs_state w) = 0
      then (- 1, w)
      else
        let w = emit (Alloc_req (calloc_ok e)) w
        in if \<not> calloc_ok e then (- 1, w)
           else
             let req = calloc_fs_request_t
                         \<lparr>user_data := ud, write_callback := callback,
                          path := (if strdup_ok e then path_arg else None)\<rparr>
             in if path req = None then (- 1, emit (Free M_req) w)
                else
                  let w = on_state fs_begin_operation w;
                      w = emit (Issue (op_fn (path req)) (Some On_simple_op)) w;
                      r = uv_issue e
                  in if r < 0 then
                       let req = req\<lparr>error_msg := make_error_msg e r\<rparr>;
                           w = call_write callback
                                 (or_else (error_msg req) ''Operation failed'') ud w;
                           w = on_state fs_record_error w;
                           w = on_state fs_end_operation w
                       in (- 1, fs_request_cleanup (Some req) False w)
                     else (0, accepted (op_fn (path req)) On_simple_op req w))"

definition fs_simple_op_mode ::
  "env \<Rightarrow> string option \<Rightarrow> fn_ptr option \<Rightarrow> void_ptr \<Rightarrow> int \<Rightarrow>
     (string option \<Rightarrow> int \<Rightarrow> uv_call) \<Rightarrow> world \<Rightarrow> int \<times> world" where
  "fs_simple_op_mode e path_arg callback ud mode op_fn w =
     (if path_arg = None \<or> callback = None then (- 1, w)
      else if \<not> initialized (fs_state w) \<or> fs_can_accept_operation (fs_state w) = 0
      then (- 1, w)
      else
        let w = emit (Alloc_req (calloc_ok e)) w
        in if \<not> calloc_ok e then (- 1, w)
           else
             let req = calloc_fs_request_t
                         \<lparr>user_data := ud, write_callback := callback,
                          path := (if strdup_ok e then path_arg else None)\<rparr>
             in if path req = None then (- 1, emit (Free M_req) w)
                else
                  let w = on_state fs_begin_operation w;
                      w = emit (Issue (op_fn (path req) mode) (Some On_simple_op)) w;
                      r = uv_issue e
                  in if r < 0 then
                       let req = req\<lparr>error_msg := make_error_msg e r\<rparr>;
                           w = call_write callback
                                 (or_else (error_msg req) ''Operation failed'') ud w;
                           w = on_state fs_record_error w;
                           w = on_state fs_end_operation w
                       in (- 1, fs_request_cleanup (Some req) False w)
                     else (0, accepted (op_fn (path req) mode) On_simple_op req w))"

definition fs_unlink ::
  "env \<Rightarrow> string option \<Rightarrow> fn_ptr option \<Rightarrow> void_ptr \<Rightarrow> world \<Rightarrow> int \<times> world" where
  "fs_unlink e path_arg callback ud w = fs_simple_op e path_arg callback ud uv_fs_unlink w"

text \<open>The mode is the octal \<open>0755\<close>.\<close>

definition fs_mkdir ::
  "env \<Rightarrow> string option \<Rightarrow> fn_ptr option \<Rightarrow> void_ptr \<Rightarrow> world \<Rightarrow> int \<times> world" where
  "fs_mkdir e path_arg callback ud w =
     fs_simple_op_mode e path_arg callback ud 493 uv_fs_mkdir w"

definition fs_rmdir ::
  "env \<Rightarrow> string option \<Rightarrow> fn_ptr option \<Rightarrow> void_ptr \<Rightarrow> world \<Rightarrow> int \<times> world" where
  "fs_rmdir e path_arg callback ud w = fs_simple_op e path_arg callback ud uv_fs_rmdir w"

definition rename_cb :: "env \<Rightarrow> uv_fs_t \<Rightarrow> fs_request_t \<Rightarrow> world \<Rightarrow> world" where
  "rename_cb e uv req w =
     (let (req, error, w) =
            (if result uv < 0 then
               let req = req\<lparr>error_msg := make_error_msg e (result uv)\<rparr>
               in (req, error_msg req, on_state fs_record_error w)
             else (req, None, w));
          w = emit uv_fs_req_cleanup w;
          w = call_write (write_callback req) error (user_data req) w;
          w = on_state fs_end_operation w
      in fs_request_cleanup (Some req) False w)"

definition fs_rename ::
  "env \<Rightarrow> string option \<Rightarrow> string option \<Rightarrow> fn_ptr option \<Rightarrow> void_ptr \<Rightarrow> world \<Rightarrow>
     int \<times> world" where
  "fs_rename e old_path new_path callback ud w =
     (if old_path = None \<or> new_path = None \<or> callback = None then (- 1, w)
      else if \<not> initialized (fs_state w) \<or> fs_can_accept_operation (fs_state w) = 0
      then (- 1, w)
      else
        let w = emit (Alloc_req (calloc_ok e)) w
        in if \<not> calloc_ok e then (- 1, w)
           else
             let req = calloc_fs_request_t
                         \<lparr>user_data := ud, write_callback := callback,
                          path := (if strdup_ok e then old_path else None),
                          path2 := (if strdup2_ok e then new_path else None)\<rparr>
             in if path req = None \<or> path2 req = None then
                  (- 1, fs_request_cleanup (Some req) False w)
                else
                  let w = on_state fs_begin_operation w;
                      w = emit (Issue (uv_fs_rename (path req) (path2 req)) (Some On_rename)) w;
                      r = uv_issue e
                  in if r < 0 then
                       let req = req\<lparr>error_msg := make_error_msg e r\<rparr>;
                           w = call_write callback (or_else (error_msg req) ''Rename failed'') ud w;
                           w = on_state fs_record_error w;
                           w = on_state fs_end_operation w
                       in (- 1, fs_request_cleanup (Some req) False w)
                     else (0, accepted (uv_fs_rename (path req) (path2 req)) On_rename req w))"

section \<open>Completions delivered by the reactor\<close>

text \<open>
  The reactor calls the handler it was given, with the Record (\<open>uv_req->data\<close>). Before
  the handler of a read runs, the reactor has stored the bytes it read at the start of
  the Record's buffer. A completion nobody waits for changes nothing.
\<close>

definition deliver :: "env \<Rightarrow> uv_fs_t \<Rightarrow> world \<Rightarrow> world" where
  "deliver e uv w =
     (case (pending w, request w) of
        (Some (c, k), Some req) \<Rightarrow>
          let w = w\<lparr>pending := None\<rparr>
          in (case k of
                On_read_stat \<Rightarrow> read_stat_cb e uv req w
              | On_read_open \<Rightarrow> read_open_cb e uv req w
              | On_read_data \<Rightarrow>
                  read_data_cb e uv
                    (req\<lparr>data := map_option (store_bytes (filled uv)) (data req)\<rparr>) w
              | On_read_close \<Rightarrow> read_close_cb e uv req w
              | On_write_open \<Rightarrow> write_open_cb e uv req w
              | On_write_data \<Rightarrow> write_data_cb e uv req w
              | On_write_close \<Rightarrow> write_close_cb e uv req w
              | On_stat \<Rightarrow> stat_cb e uv req w
              | On_simple_op \<Rightarrow> simple_op_cb e uv req w
              | On_rename \<Rightarrow> rename_cb e uv req w)
      | _ \<Rightarrow> w)"

fun run :: "(env \<times> uv_fs_t) list \<Rightarrow> world \<Rightarrow> world" where
  "run [] w = w"
| "run ((e, uv) # cs) w = run cs (deliver e uv w)"

text \<open>The public entry points, as one type of calls.\<close>

datatype call =
    Read_file "string option" "Arena option" "fn_ptr option" void_ptr
  | Write_file "string option" "void_ptr option" size_t "fn_ptr option" void_ptr
  | Append_file "string option" "void_ptr option" size_t "fn_ptr option" void_ptr
  | Stat "string option" "fn_ptr option" void_ptr
  | Unlink "string option" "fn_ptr option" void_ptr
  | Mkdir "string option" "fn_ptr option" void_ptr
  | Rmdir "string option" "fn_ptr option" void_ptr
  | Rename "string option" "string option" "fn_ptr option" void_ptr

fun invoke :: "env \<Rightarrow> call \<Rightarrow> world \<Rightarrow> int \<times> world" where
  "invoke e (Read_file p a cb ud) w = fs_read_file e p a cb ud w"
| "invoke e (Write_file p d n cb ud) w = fs_write_file e p d n cb ud w"
| "invoke e (Append_file p d n cb ud) w = fs_append_file e p d n cb ud w"
| "invoke e (Stat p cb ud) w = fs_stat e p cb ud w"
| "invoke e (Unlink p cb ud) w = fs_unlink e p cb ud w"
| "invoke e (Mkdir p cb ud) w = fs_mkdir e p cb ud w"
| "invoke e (Rmdir p cb ud) w = fs_rmdir e p cb ud w"
| "invoke e (Rename p q cb ud) w = fs_rename e p q cb ud w"

text \<open>
  The handlers a chain-internal call registers: \<open>uv_fs_open\<close> in \<open>read_stat_cb\<close>,
  \<open>uv_fs_read\<close> in \<open>read_open_cb\<close>, \<open>uv_fs_close\<close> in \<open>read_data_cb\<close>, \<open>uv_fs_write\<close> in
  \<open>write_open_cb\<close> and \<open>uv_fs_close\<close> in \<open>write_data_cb\<close>. The other five are registered by
  an entry point, which checks the value its call returns (\<open>uv_issue\<close>).
\<close>

fun chain_internal :: "uv_fs_cb \<Rightarrow> bool" where
  "chain_internal On_read_open = True"
| "chain_internal On_read_data = True"
| "chain_internal On_read_close = True"
| "chain_internal On_write_data = True"
| "chain_internal On_write_close = True"
| "chain_internal k = False"

text \<open>
  The reactor has refused a chain-internal call: the call returned an error and its
  handler will never run. The source dropped the value, so the Record and the registry
  are as the handler left them; only the reactor owes nothing any more.
\<close>

definition refuse :: "world \<Rightarrow> world" where
  "refuse w =
     (case pending w of
        None \<Rightarrow> w
      | Some (c, k) \<Rightarrow> if chain_internal k then w\<lparr>pending := None\<rparr> else w)"

text \<open>What the reactor does next, and a sequence of such events.\<close>

datatype reactor_event = Completes env uv_fs_t | Refuses

fun react :: "reactor_event \<Rightarrow> world \<Rightarrow> world" where
  "react (Completes e uv) w = deliver e uv w"
| "react Refuses w = refuse w"

fun run_script :: "reactor_event list \<Rightarrow> world \<Rightarrow> world" where
  "run_script [] w = w"
| "run_script (ev # evs) w = run_script evs (react ev w)"

section \<open>Shutdown\<close>




section \<open>The registry states the module can reach\<close>

text \<open>
  The registry starts zeroed. It changes only through the functions above, called the way
  the entry points and the completion handlers call them: an operation is admitted by
  \<open>fs_begin_operation\<close> after the module was found initialized and
  \<open>fs_can_accept_operation\<close> did not return 0; every terminal handler calls
  \<open>fs_end_operation\<close>. The calls of one controlling thread are taken one after the other.
\<close>

inductive reachable :: "fs_module_state_t \<Rightarrow> bool" where
  start: "reachable fs_state_zero"
| init: "reachable s \<Longrightarrow> reachable (snd (fs_init mutex_ok s))"
| admit: "reachable s \<Longrightarrow> initialized s \<Longrightarrow> fs_can_accept_operation s \<noteq> 0 \<Longrightarrow>
          reachable (fs_begin_operation s)"
| complete: "reachable s \<Longrightarrow> reachable (fs_end_operation s)"
| record_read: "reachable s \<Longrightarrow> reachable (fs_record_read bytes s)"
| record_write: "reachable s \<Longrightarrow> reachable (fs_record_write bytes s)"
| record_error: "reachable s \<Longrightarrow> reachable (fs_record_error s)"
| reset: "reachable s \<Longrightarrow> reachable (fs_reset_stats s)"
| cleanup: "reachable s \<Longrightarrow> reachable (s\<lparr>initialized := False\<rparr>)"

section \<open>A reactor over files held in memory\<close>

text \<open>
  The reactor and the file system behind it are not part of the repository. For the
  statements that speak of what a later operation finds on disk, the reactor is taken
  to be this one: regular files are byte strings kept by path, an open file is a
  descriptor bound to a path and its flags, every request is carried out at once, and
  a request fails only for a missing file or a bad descriptor. One write or read
  request transfers at most \<open>transfer_limit\<close> bytes: a larger request is cut short, and
  the completion reports the number of bytes transferred, as \<open>write\<close> and \<open>read\<close> do.
  Calls it does not cover (directories, a null path) have no completion.
\<close>

record reactor =
  files :: "string \<Rightarrow> byte list option"
  open_files :: "uv_file \<Rightarrow> (string \<times> open_flag set) option"
  next_fd :: nat
  transfer_limit :: nat

definition UV_ENOENT :: int where "UV_ENOENT = - 2"
definition UV_EBADF :: int where "UV_EBADF = - 9"

definition completion :: "int \<Rightarrow> uv_fs_t" where
  "completion r =
     \<lparr>result = r,
      statbuf = \<lparr>st_mode = 0, st_size = 0, st_atim = 0, st_mtim = 0, st_birthtim = 0\<rparr>,
      filled = []\<rparr>"

definition write_at :: "nat \<Rightarrow> byte list \<Rightarrow> byte list \<Rightarrow> byte list" where
  "write_at off bs old =
     take off (old @ replicate (off - length old) 0) @ bs @ drop (off + length bs) old"

fun serve :: "reactor \<Rightarrow> uv_call \<Rightarrow> (reactor \<times> uv_fs_t) option" where
  "serve R (uv_fs_stat (Some p)) =
     (case files R p of
        None \<Rightarrow> Some (R, completion UV_ENOENT)
      | Some bs \<Rightarrow>
          Some (R, (completion 0)\<lparr>statbuf := (statbuf (completion 0))
                                             \<lparr>st_size := of_nat (length bs)\<rparr>\<rparr>))"
| "serve R (uv_fs_open (Some p) flags mode) =
     (if files R p = None \<and> UV_FS_O_CREAT \<notin> flags then Some (R, completion UV_ENOENT)
      else
        let content = (case files R p of
                         None \<Rightarrow> []
                       | Some bs \<Rightarrow> if UV_FS_O_TRUNC \<in> flags then [] else bs);
            fd = int (next_fd R)
        in Some (R\<lparr>files := (files R)(p \<mapsto> content),
                    open_files := (open_files R)(fd \<mapsto> (p, flags)),
                    next_fd := next_fd R + 1\<rparr>,
                 completion fd))"
| "serve R (uv_fs_write fd (Some buf) len off) =
     (case open_files R fd of
        None \<Rightarrow> Some (R, completion UV_EBADF)
      | Some (p, flags) \<Rightarrow>
          (case files R p of
             None \<Rightarrow> Some (R, completion UV_EBADF)
           | Some old \<Rightarrow>
               if UV_FS_O_WRONLY \<notin> flags then Some (R, completion UV_EBADF)
               else
                 let bs = take (min len (transfer_limit R)) buf;
                     new = (if UV_FS_O_APPEND \<in> flags then old @ bs
                            else write_at (nat off) bs old)
                 in Some (R\<lparr>files := (files R)(p \<mapsto> new)\<rparr>, completion (int (length bs)))))"
| "serve R (uv_fs_read fd len off) =
     (case open_files R fd of
        None \<Rightarrow> Some (R, completion UV_EBADF)
      | Some (p, flags) \<Rightarrow>
          (case files R p of
             None \<Rightarrow> Some (R, completion UV_EBADF)
           | Some bs \<Rightarrow>
               if UV_FS_O_WRONLY \<in> flags then Some (R, completion UV_EBADF)
               else
                 let out = take (min len (transfer_limit R)) (drop (nat off) bs)
                 in Some (R, (completion (int (length out)))\<lparr>filled := out\<rparr>)))"
| "serve R (uv_fs_close fd) =
     (case open_files R fd of
        None \<Rightarrow> Some (R, completion UV_EBADF)
      | Some _ \<Rightarrow> Some (R\<lparr>open_files := (open_files R)(fd := None)\<rparr>, completion 0))"
| "serve R (uv_fs_unlink (Some p)) =
     (case files R p of
        None \<Rightarrow> Some (R, completion UV_ENOENT)
      | Some _ \<Rightarrow> Some (R\<lparr>files := (files R)(p := None)\<rparr>, completion 0))"
| "serve R (uv_fs_rename (Some p) (Some q)) =
     (case files R p of
        None \<Rightarrow> Some (R, completion UV_ENOENT)
      | Some bs \<Rightarrow> Some (R\<lparr>files := (files R)(p := None, q \<mapsto> bs)\<rparr>, completion 0))"
| "serve R _ = None"

text \<open>The synchronous calls (null handler) among the events a handler produced.\<close>

fun apply_sync :: "action list \<Rightarrow> reactor \<Rightarrow> reactor" where
  "apply_sync [] R = R"
| "apply_sync (Issue c None # evs) R =
     apply_sync evs (case serve R c of Some (R', uv) \<Rightarrow> R' | None \<Rightarrow> R)"
| "apply_sync (a # evs) R = apply_sync evs R"

text \<open>
  The reactor serves the call it owes and delivers the completion, once for each
  environment of the list (the allocation outcomes of that handler's activation), until
  nothing is owed.
\<close>

fun drive :: "env list \<Rightarrow> reactor \<Rightarrow> world \<Rightarrow> reactor \<times> world" where
  "drive [] R w = (R, w)"
| "drive (e # es) R w =
     (case pending w of
        None \<Rightarrow> (R, w)
      | Some (c, k) \<Rightarrow>
          (case serve R c of
             None \<Rightarrow> (R, w)
           | Some (R1, uv) \<Rightarrow>
               let w1 = deliver e uv w;
                   R2 = apply_sync (drop (length (trace w)) (trace w1)) R1
               in drive es R2 w1))"

text \<open>
  An entry point called and, when it returned 0, its chain driven by the reactor. Once
  the entry point has returned, the caller may store anything into its memory: \<open>later\<close>
  is the caller's memory from then on.
\<close>

definition perform ::
  "env \<Rightarrow> env list \<Rightarrow> call \<Rightarrow> (void_ptr \<Rightarrow> byte list) \<Rightarrow> reactor \<Rightarrow> world \<Rightarrow>
     int \<times> reactor \<times> world" where
  "perform e es c later R w =
     (let (r, w1) = invoke e c w
      in if r = 0
         then (let (R', w') = drive es R (w1\<lparr>caller_mem := later\<rparr>) in (r, R', w'))
         else (r, R, w1))"

text \<open>The events added to the trace between two worlds.\<close>

definition events_since :: "world \<Rightarrow> world \<Rightarrow> action list" where
  "events_since w w' = drop (length (trace w)) (trace w')"

section \<open>Reading a trace\<close>

fun is_callback :: "action \<Rightarrow> bool" where
  "is_callback (Call_read f err d n ud) = True"
| "is_callback (Call_write f err ud) = True"
| "is_callback (Call_stat f err st ud) = True"
| "is_callback a = False"

text \<open>An invocation of the function \<open>cb\<close> with the user data \<open>ud\<close>.\<close>

fun is_call_to :: "fn_ptr \<Rightarrow> void_ptr \<Rightarrow> action \<Rightarrow> bool" where
  "is_call_to cb ud (Call_read f err d n ud') = (f = cb \<and> ud' = ud)"
| "is_call_to cb ud (Call_write f err ud') = (f = cb \<and> ud' = ud)"
| "is_call_to cb ud (Call_stat f err st ud') = (f = cb \<and> ud' = ud)"
| "is_call_to cb ud a = False"

text \<open>The error argument of a callback invocation.\<close>

fun error_arg :: "action \<Rightarrow> string option" where
  "error_arg (Call_read f err d n ud) = err"
| "error_arg (Call_write f err ud) = err"
| "error_arg (Call_stat f err st ud) = err"
| "error_arg a = None"

fun is_issue :: "action \<Rightarrow> bool" where
  "is_issue (Issue c k) = True"
| "is_issue a = False"

fun is_open :: "action \<Rightarrow> bool" where
  "is_open (Issue (uv_fs_open p flags mode) k) = True"
| "is_open a = False"

fun is_alloc_data :: "action \<Rightarrow> bool" where
  "is_alloc_data (Alloc_data a n ok) = True"
| "is_alloc_data a = False"

fun is_stderr :: "action \<Rightarrow> bool" where
  "is_stderr (Stderr msg args) = True"
| "is_stderr a = False"

definition invocations :: "action list \<Rightarrow> action list" where
  "invocations evs = filter is_callback evs"



text \<open>
  The callback field a handler invokes, and the number of completions a chain still
  needs, at most, when that handler is the one registered.
\<close>

fun handler_callback :: "uv_fs_cb \<Rightarrow> fs_request_t \<Rightarrow> fn_ptr option" where
  "handler_callback On_read_stat req = read_callback req"
| "handler_callback On_read_open req = read_callback req"
| "handler_callback On_read_data req = read_callback req"
| "handler_callback On_read_close req = read_callback req"
| "handler_callback On_stat req = stat_callback req"
| "handler_callback k req = write_callback req"

fun steps_left :: "uv_fs_cb \<Rightarrow> nat" where
  "steps_left On_read_stat = 4"
| "steps_left On_read_open = 3"
| "steps_left On_read_data = 2"
| "steps_left On_read_close = 1"
| "steps_left On_write_open = 3"
| "steps_left On_write_data = 2"
| "steps_left On_write_close = 1"
| "steps_left On_stat = 1"
| "steps_left On_simple_op = 1"
| "steps_left On_rename = 1"



fun is_alloc_req :: "action \<Rightarrow> bool" where
  "is_alloc_req (Alloc_req ok) = True"
| "is_alloc_req a = False"




section \<open>Predicates on worlds\<close>

text \<open>
  The Record is live and a completion is owed for it, and the handler that will run
  invokes the function \<open>cb\<close> with the user data \<open>ud\<close>.
\<close>

definition live :: "fn_ptr \<Rightarrow> void_ptr \<Rightarrow> world \<Rightarrow> bool" where
  "live cb ud w =
     (case (pending w, request w) of
        (Some (c, k), Some req) \<Rightarrow> handler_callback k req = Some cb \<and> user_data req = ud
      | _ \<Rightarrow> False)"

text \<open>The completions a live Record still needs, at most.\<close>

definition owed :: "world \<Rightarrow> nat" where
  "owed w =
     (case (pending w, request w) of
        (Some (c, k), Some req) \<Rightarrow> steps_left k
      | _ \<Rightarrow> 0)"


text \<open>
  One handler activation, from \<open>w\<close> to \<open>w'\<close>: it only adds events, and either the chain goes
  on, nearer to its end and with no callback invoked, or the Record is released and the
  callback was invoked exactly once.
\<close>

definition step_ok :: "fn_ptr \<Rightarrow> void_ptr \<Rightarrow> nat \<Rightarrow> world \<Rightarrow> world \<Rightarrow> bool" where
  "step_ok cb ud n w w' =
     (trace w' = trace w @ events_since w w' \<and>
      ((live cb ud w' \<and> owed w' < n \<and> invocations (events_since w w') = []) \<or>
       (request w' = None \<and> pending w' = None \<and>
        (\<exists>a. invocations (events_since w w') = [a] \<and> is_call_to cb ud a))))"

text \<open>The events of \<open>fs_request_cleanup(req, free_data)\<close>.\<close>

definition frees :: "fs_request_t \<Rightarrow> bool \<Rightarrow> action list" where
  "frees req free_data =
     (if path req \<noteq> None then [Free M_path] else []) @
     (if path2 req \<noteq> None then [Free M_path2] else []) @
     (if error_msg req \<noteq> None then [Free M_error_msg] else []) @
     (if free_data \<and> data req \<noteq> None \<and> arena req = None then [Free M_data] else []) @
     [Free M_req]"

text \<open>
  What an entry point has done when it returns \<open>r\<close> in the world \<open>w1\<close>: it only added
  events; if it made no call into the reactor it returned \<open>-1\<close> and invoked nothing; if
  it made the call and returns 0 the Record is live and nothing was invoked yet;
  otherwise it returns \<open>-1\<close>, the Record is released and the callback was invoked once,
  with an error.
\<close>

definition entry_ok :: "fn_ptr option \<Rightarrow> void_ptr \<Rightarrow> world \<Rightarrow> int \<Rightarrow> world \<Rightarrow> bool" where
  "entry_ok callback ud w r w1 =
     (trace w1 = trace w @ events_since w w1 \<and>
      (if filter is_issue (events_since w w1) = [] then
         r = - 1 \<and> invocations (events_since w w1) = []
       else if r = 0 then
         invocations (events_since w w1) = [] \<and>
         (\<exists>cb. callback = Some cb \<and> live cb ud w1)
       else
         r = - 1 \<and> request w1 = None \<and>
         (\<exists>cb a. callback = Some cb \<and> invocations (events_since w w1) = [a] \<and>
            is_call_to cb ud a \<and> error_arg a \<noteq> None)))"


section \<open>Concrete inputs\<close>

text \<open>
  An initialized module with nothing in flight; an environment in which every allocation
  succeeds and the reactor accepts the call; the same with one allocation failing.
\<close>

definition world0 :: world where
  "world0 = \<lparr>fs_state = fs_state_zero\<lparr>initialized := True\<rparr>, request = None,
             pending = None, trace = [], caller_mem = (\<lambda>a. [])\<rparr>"

definition env_ok :: env where
  "env_ok =
     \<lparr>calloc_ok = True, strdup_ok = True, strdup2_ok = True, malloc_data_ok = True,
      malloc_msg_ok = True, fresh_byte = (\<lambda>i. 170),
      uv_err_name = (\<lambda>c. if c = - 2 then ''ENOENT'' else ''UNKNOWN''),
      uv_strerror = (\<lambda>c. if c = - 2 then ''no such file or directory'' else ''unknown error''),
      uv_issue = 0\<rparr>"


definition env_no_msg :: env where
  "env_no_msg = env_ok\<lparr>malloc_msg_ok := False\<rparr>"

text \<open>A successful \<open>stat\<close> completion reporting the size \<open>n\<close>.\<close>

definition completion_stat :: "uint64_t \<Rightarrow> uv_fs_t" where
  "completion_stat n = (completion 0)\<lparr>statbuf := (statbuf (completion 0))\<lparr>st_size := n\<rparr>\<rparr>"

definition reactor0 :: reactor where
  "reactor0 = \<lparr>files = (\<lambda>p. None), open_files = (\<lambda>fd. None), next_fd = 3,
                transfer_limit = 4096\<rparr>"

text \<open>
  A payload of three bytes that lies at address 7 of the caller's memory, followed by two
  bytes that are not part of it. It is written to \<open>a.txt\<close> on the empty reactor while
  the caller overwrites its buffer as soon as the call has returned, and read back from
  the reactor the write left behind.
\<close>

definition payload0 :: "byte list" where
  "payload0 = [104, 105, 33]"

definition world_payload :: world where
  "world_payload = world0\<lparr>caller_mem := (\<lambda>a. if a = 7 then payload0 @ [1, 2] else [])\<rparr>"

definition overwritten :: "void_ptr \<Rightarrow> byte list" where
  "overwritten = (\<lambda>a. [0, 0, 0, 0, 0])"

definition written0 :: "int \<times> reactor \<times> world" where
  "written0 =
     perform env_ok [env_ok, env_ok, env_ok]
       (Write_file (Some ''a.txt'') (Some 7) (of_nat (length payload0)) (Some 1) 0)
       overwritten reactor0 world_payload"

definition read_back0 :: "int \<times> reactor \<times> world" where
  "read_back0 =
     perform env_ok [env_ok, env_ok, env_ok, env_ok]
       (Read_file (Some ''a.txt'') None (Some 2) 0) overwritten (fst (snd written0)) world0"

text \<open>The same on a reactor that transfers at most two bytes for one request.\<close>

definition written_short :: "int \<times> reactor \<times> world" where
  "written_short =
     perform env_ok [env_ok, env_ok, env_ok]
       (Write_file (Some ''a.txt'') (Some 7) (of_nat (length payload0)) (Some 1) 0)
       overwritten (reactor0\<lparr>transfer_limit := 2\<rparr>) world_payload"

definition read_back_short :: "int \<times> reactor \<times> world" where
  "read_back_short =
     perform env_ok [env_ok, env_ok, env_ok, env_ok]
       (Read_file (Some ''a.txt'') None (Some 2) 0) overwritten (fst (snd written_short))
       world0"

section \<open>Projections of the helpers\<close>

lemma emit_simps [simp]:
  "trace (emit a w) = trace w @ [a]"
  "fs_state (emit a w) = fs_state w"
  "request (emit a w) = request w"
  "pending (emit a w) = pending w"
  "caller_mem (emit a w) = caller_mem w"
  by (simp_all add: emit_def)

lemma on_state_simps [simp]:
  "trace (on_state f w) = trace w"
  "fs_state (on_state f w) = f (fs_state w)"
  "request (on_state f w) = request w"
  "pending (on_state f w) = pending w"
  "caller_mem (on_state f w) = caller_mem w"
  by (simp_all add: on_state_def)

lemma call_read_simps [simp]:
  "trace (call_read cb err d n ud w) =
     trace w @ (case cb of None \<Rightarrow> [] | Some f \<Rightarrow> [Call_read f err d n ud])"
  "fs_state (call_read cb err d n ud w) = fs_state w"
  "request (call_read cb err d n ud w) = request w"
  "pending (call_read cb err d n ud w) = pending w"
  by (simp_all add: call_read_def split: option.splits)

lemma call_write_simps [simp]:
  "trace (call_write cb err ud w) =
     trace w @ (case cb of None \<Rightarrow> [] | Some f \<Rightarrow> [Call_write f err ud])"
  "fs_state (call_write cb err ud w) = fs_state w"
  "request (call_write cb err ud w) = request w"
  "pending (call_write cb err ud w) = pending w"
  by (simp_all add: call_write_def split: option.splits)

lemma call_stat_simps [simp]:
  "trace (call_stat cb err st ud w) =
     trace w @ (case cb of None \<Rightarrow> [] | Some f \<Rightarrow> [Call_stat f err st ud])"
  "fs_state (call_stat cb err st ud w) = fs_state w"
  "request (call_stat cb err st ud w) = request w"
  "pending (call_stat cb err st ud w) = pending w"
  by (simp_all add: call_stat_def split: option.splits)

lemma fs_request_cleanup_simps [simp]:
  "trace (fs_request_cleanup (Some req) b w) = trace w @ frees req b"
  "fs_state (fs_request_cleanup r b w) = fs_state w"
  "request (fs_request_cleanup (Some req) b w) = None"
  "pending (fs_request_cleanup r b w) = pending w"
  by (simp_all add: fs_request_cleanup_def frees_def Let_def split: option.splits)

lemma invocations_frees [simp]: "invocations (frees req b) = []"
  by (simp add: invocations_def frees_def)

lemma invocations_simps [simp]:
  "invocations [] = []"
  "invocations (xs @ ys) = invocations xs @ invocations ys"
  "invocations (a # xs) = (if is_callback a then a # invocations xs else invocations xs)"
  by (simp_all add: invocations_def)

lemma issue_simps [simp]:
  "trace (issue c k req w) = trace w @ [Issue c (Some k)]"
  "fs_state (issue c k req w) = fs_state w"
  "request (issue c k req w) = Some req"
  "pending (issue c k req w) = Some (c, k)"
  by (simp_all add: issue_def)

lemma accepted_simps [simp]:
  "trace (accepted c k req w) = trace w"
  "fs_state (accepted c k req w) = fs_state w"
  "request (accepted c k req w) = Some req"
  "pending (accepted c k req w) = Some (c, k)"
  by (simp_all add: accepted_def)

lemma events_since_append: "trace w' = trace w @ evs \<Longrightarrow> events_since w w' = evs"
  by (simp add: events_since_def)

lemma or_else_Some [simp]: "or_else m s \<noteq> None"
  by (simp add: or_else_def split: option.splits)

section \<open>The registry\<close>



text \<open>
  Claim C10. Called with a null pointer, or while the module is not initialized,
  \<open>fs_get_stats\<close> writes nothing: the caller's struct after the call is the struct before
  it, field for field.
\<close>

theorem fs_get_stats_writes_nothing:
  "stats = None \<or> \<not> initialized s \<Longrightarrow> fs_get_stats stats s = stats"
  by (auto simp: fs_get_stats_def split: option.splits)

theorem fs_get_stats_writes_nothing_witness:
  "fs_get_stats None (fs_state_zero\<lparr>initialized := True\<rparr>) = None \<and>
   fs_get_stats
     (Some \<lparr>fs_stats_t.active_operations = 7, peak_operations = 7, queued_operations = 7,
            total_reads = 7, total_writes = 7, total_bytes_read = 7,
            total_bytes_written = 7, failed_operations = 7\<rparr>)
     (fs_state_zero\<lparr>active_operations := 1\<rparr>) =
   Some \<lparr>fs_stats_t.active_operations = 7, peak_operations = 7, queued_operations = 7,
         total_reads = 7, total_writes = 7, total_bytes_read = 7,
         total_bytes_written = 7, failed_operations = 7\<rparr>"
proof -
  have uninit: "\<not> initialized (fs_state_zero\<lparr>active_operations := 1\<rparr>)"
    by (simp add: fs_state_zero_def)
  show ?thesis
    using fs_get_stats_writes_nothing [of None "fs_state_zero\<lparr>initialized := True\<rparr>"]
      fs_get_stats_writes_nothing [OF disjI2 [OF uninit]]
    by simp
qed

text \<open>
  Claim C4, as stated, fails: \<open>fs_reset_stats\<close> assigns 0 to \<open>peak_operations\<close> as well.
  After one admitted operation the peak is 1; after the reset it is 0.
\<close>

theorem fs_reset_stats_peak_counterexample:
  "reachable (fs_begin_operation (snd (fs_init True fs_state_zero))) \<and>
   peak_operations (fs_begin_operation (snd (fs_init True fs_state_zero))) = 1 \<and>
   peak_operations (fs_reset_stats (fs_begin_operation (snd (fs_init True fs_state_zero)))) = 0"
proof -
  have "reachable (snd (fs_init True fs_state_zero))"
    by (rule reachable.init) (rule reachable.start)
  moreover have "initialized (snd (fs_init True fs_state_zero))"
    by (simp add: fs_init_def fs_state_zero_def)
  moreover have "fs_can_accept_operation (snd (fs_init True fs_state_zero)) \<noteq> 0"
    by (simp add: fs_init_def fs_state_zero_def fs_can_accept_operation_def
        ECEWO_FS_MAX_CONCURRENT_OPS_def)
  ultimately have "reachable (fs_begin_operation (snd (fs_init True fs_state_zero)))"
    by (rule reachable.admit)
  then show ?thesis
    by (simp add: fs_init_def fs_state_zero_def fs_begin_operation_def fs_reset_stats_def)
qed

text \<open>
  Claim C4, amended. For every registry state \<open>fs_reset_stats\<close> leaves
  \<open>active_operations\<close>, \<open>queued_operations\<close> and \<open>initialized\<close> unchanged. When the module is
  initialized it zeroes the cumulative counters (\<open>total_reads\<close>, \<open>total_writes\<close>,
  \<open>total_bytes_read\<close>, \<open>total_bytes_written\<close>, \<open>failed_operations\<close>) and \<open>peak_operations\<close>
  too; when the module is not initialized it changes nothing.
\<close>

theorem fs_reset_stats_effect:
  "active_operations (fs_reset_stats s) = active_operations s \<and>
   queued_operations (fs_reset_stats s) = queued_operations s \<and>
   initialized (fs_reset_stats s) = initialized s \<and>
   (initialized s \<longrightarrow>
      total_reads (fs_reset_stats s) = 0 \<and> total_writes (fs_reset_stats s) = 0 \<and>
      total_bytes_read (fs_reset_stats s) = 0 \<and> total_bytes_written (fs_reset_stats s) = 0 \<and>
      failed_operations (fs_reset_stats s) = 0 \<and> peak_operations (fs_reset_stats s) = 0) \<and>
   (\<not> initialized s \<longrightarrow> fs_reset_stats s = s)"
  by (simp add: fs_reset_stats_def)

theorem fs_reset_stats_effect_witness:
  "initialized (fs_state_zero\<lparr>initialized := True, active_operations := 3,
      peak_operations := 5, total_reads := 9\<rparr>) \<and>
   active_operations (fs_reset_stats (fs_state_zero\<lparr>initialized := True,
      active_operations := 3, peak_operations := 5, total_reads := 9\<rparr>)) = 3 \<and>
   peak_operations (fs_reset_stats (fs_state_zero\<lparr>initialized := True,
      active_operations := 3, peak_operations := 5, total_reads := 9\<rparr>)) = 0 \<and>
   total_reads (fs_reset_stats (fs_state_zero\<lparr>initialized := True,
      active_operations := 3, peak_operations := 5, total_reads := 9\<rparr>)) = 0 \<and>
   \<not> initialized (fs_state_zero\<lparr>total_reads := 9\<rparr>) \<and>
   fs_reset_stats (fs_state_zero\<lparr>total_reads := 9\<rparr>) = fs_state_zero\<lparr>total_reads := 9\<rparr>"
  using fs_reset_stats_effect [of "fs_state_zero\<lparr>initialized := True,
      active_operations := 3, peak_operations := 5, total_reads := 9\<rparr>"]
    fs_reset_stats_effect [of "fs_state_zero\<lparr>total_reads := 9\<rparr>"]
  by (simp add: fs_state_zero_def)

lemma reachable_active_bounds:
  "reachable s \<Longrightarrow>
   0 \<le> active_operations s \<and> active_operations s \<le> ECEWO_FS_MAX_CONCURRENT_OPS"
proof (induction rule: reachable.induct)
  case start
  show ?case by (simp add: fs_state_zero_def ECEWO_FS_MAX_CONCURRENT_OPS_def)
next
  case (init s mutex_ok)
  then show ?case by (simp add: fs_init_def)
next
  case (admit s)
  then show ?case
    by (simp add: fs_can_accept_operation_def fs_begin_operation_def Let_def split: if_splits)
next
  case (complete s)
  then show ?case by (simp add: fs_end_operation_def)
next
  case (record_read s bytes)
  then show ?case by (simp add: fs_record_read_def)
next
  case (record_write s bytes)
  then show ?case by (simp add: fs_record_write_def)
next
  case (record_error s)
  then show ?case by (simp add: fs_record_error_def)
next
  case (reset s)
  then show ?case by (simp add: fs_reset_stats_def)
next
  case (cleanup s)
  then show ?case by simp
qed

text \<open>
  Claim C2. In every registry state reachable through the admission transitions,
  \<open>0 \<le> active_operations \<le> ECEWO_FS_MAX_CONCURRENT_OPS\<close>. An operation is admitted only
  when \<open>active_operations\<close> is strictly below the ceiling (the gate returns 0 exactly at
  the ceiling); admission adds one and raises \<open>peak_operations\<close> to the new count when
  that is larger; \<open>fs_end_operation\<close> takes one off, stops at 0, and changes no other
  field. The transitions are those of one controlling thread, taken one after the other.
\<close>

theorem admission_keeps_active_within_ceiling:
  assumes "reachable s"
  shows "0 \<le> active_operations s \<and> active_operations s \<le> ECEWO_FS_MAX_CONCURRENT_OPS \<and>
         (initialized s \<and> fs_can_accept_operation s \<noteq> 0 \<longrightarrow>
            active_operations s < ECEWO_FS_MAX_CONCURRENT_OPS \<and>
            active_operations (fs_begin_operation s) = active_operations s + 1 \<and>
            peak_operations (fs_begin_operation s) =
              max (peak_operations s) (active_operations s + 1)) \<and>
         (initialized s \<and> fs_can_accept_operation s = 0 \<longrightarrow>
            active_operations s = ECEWO_FS_MAX_CONCURRENT_OPS) \<and>
         fs_end_operation s = s\<lparr>active_operations := max 0 (active_operations s - 1)\<rparr>"
proof -
  from assms have b: "0 \<le> active_operations s"
    "active_operations s \<le> ECEWO_FS_MAX_CONCURRENT_OPS"
    using reachable_active_bounds by blast+
  show ?thesis using b
    by (auto simp: fs_can_accept_operation_def fs_begin_operation_def fs_end_operation_def
        Let_def max_def split: if_splits)
qed

theorem admission_keeps_active_within_ceiling_witness:
  "reachable (fs_end_operation (fs_begin_operation (snd (fs_init True fs_state_zero)))) \<and>
   0 \<le> active_operations
         (fs_end_operation (fs_begin_operation (snd (fs_init True fs_state_zero)))) \<and>
   active_operations (fs_end_operation (fs_begin_operation (snd (fs_init True fs_state_zero))))
     \<le> ECEWO_FS_MAX_CONCURRENT_OPS"
proof -
  have "reachable (snd (fs_init True fs_state_zero))"
    by (rule reachable.init) (rule reachable.start)
  moreover have "initialized (snd (fs_init True fs_state_zero))"
    by (simp add: fs_init_def fs_state_zero_def)
  moreover have "fs_can_accept_operation (snd (fs_init True fs_state_zero)) \<noteq> 0"
    by (simp add: fs_init_def fs_state_zero_def fs_can_accept_operation_def
        ECEWO_FS_MAX_CONCURRENT_OPS_def)
  ultimately have "reachable (fs_begin_operation (snd (fs_init True fs_state_zero)))"
    by (rule reachable.admit)
  then have r: "reachable
      (fs_end_operation (fs_begin_operation (snd (fs_init True fs_state_zero))))"
    by (rule reachable.complete)
  show ?thesis
    using r admission_keeps_active_within_ceiling [OF r] by blast
qed

section \<open>Shutdown\<close>








section \<open>One completion at a time\<close>







lemma step_ok_mono: "step_ok cb ud m w w' \<Longrightarrow> m \<le> n \<Longrightarrow> step_ok cb ud n w w'"
  by (auto simp: step_ok_def)



lemma deliver_released: "request w = None \<Longrightarrow> deliver e uv w = w"
  by (simp add: deliver_def split: option.splits)

lemma run_released: "request w = None \<Longrightarrow> run cs w = w"
  by (induction cs arbitrary: w) (auto simp: deliver_released)

lemma events_since_trans:
  "trace w1 = trace w0 @ evs1 \<Longrightarrow> trace w2 = trace w1 @ evs2 \<Longrightarrow>
   events_since w0 w2 = evs1 @ evs2"
  by (simp add: events_since_def)


section \<open>Exactly one callback\<close>

lemma or_else_ex [simp]: "\<exists>y. or_else m s = Some y"
  by (cases m) (simp_all add: or_else_def)

lemma is_issue_frees [simp]: "filter is_issue (frees req b) = []"
  by (simp add: frees_def)


lemma fs_read_file_entry:
  "fs_read_file e p a cb ud w = (r, w1) \<Longrightarrow> entry_ok cb ud w r w1"
  unfolding fs_read_file_def Let_def
  by (auto split: if_splits simp: entry_ok_def live_def events_since_def)

lemma fs_write_internal_entry:
  "fs_write_internal e p d n cb ud flags w = (r, w1) \<Longrightarrow> entry_ok cb ud w r w1"
  unfolding fs_write_internal_def Let_def
  by (auto split: if_splits simp: entry_ok_def live_def events_since_def)










subsection \<open>What the entry points test\<close>

lemma is_alloc_req_frees [simp]: "filter is_alloc_req (frees req b) = []"
  by (simp add: frees_def)

lemma not_stderr_frees_req:
  "filter (\<lambda>a. \<not> is_stderr a) (frees req b) \<noteq> []"
  by (simp add: frees_def)










lemma refuse_simps [simp]:
  "trace (refuse w) = trace w"
  "request (refuse w) = request w"
  "fs_state (refuse w) = fs_state w"
  "caller_mem (refuse w) = caller_mem w"
  by (simp_all add: refuse_def split: option.splits)

lemma refuse_pending: "pending (refuse w) = pending w \<or> pending (refuse w) = None"
  by (simp add: refuse_def split: option.splits)






lemma run_is_run_script: "run cs w = run_script (map (\<lambda>(e, uv). Completes e uv) cs) w"
  by (induction cs arbitrary: w) auto

lemma trace_trans':
  "trace w1 = trace w0 @ evs1 \<Longrightarrow> trace w2 = trace w1 @ evs2 \<Longrightarrow>
   trace w2 = trace w0 @ events_since w0 w2"
  by (simp add: events_since_def)



subsection \<open>The claim\<close>






section \<open>The size ceiling\<close>

lemma fs_read_file_accepted:
  assumes "fs_read_file e p a cb ud w = (0, w1)"
  shows "\<exists>f q req. cb = Some f \<and> p = Some q \<and>
           req = calloc_fs_request_t\<lparr>arena := a, user_data := ud, read_callback := cb, path := p\<rparr> \<and>
           request w1 = Some req \<and>
           pending w1 = Some (uv_fs_stat p, On_read_stat) \<and>
           fs_state w1 = fs_begin_operation (fs_state w) \<and>
           trace w1 = trace w @ [Alloc_req True, Issue (uv_fs_stat p) (Some On_read_stat)]"
  using assms unfolding fs_read_file_def Let_def
  by (auto split: if_splits)

lemma read_too_large:
  assumes entry: "fs_read_file e p a cb ud w = (0, w1)"
    and ok: "0 \<le> result uv"
    and big: "ECEWO_FS_MAX_FILE_SIZE < uint (st_size (statbuf uv))"
  shows "request (run ((e', uv) # cs) w1) = None \<and>
         filter is_issue (events_since w (run ((e', uv) # cs) w1)) =
           [Issue (uv_fs_stat p) (Some On_read_stat)] \<and>
         filter is_alloc_data (events_since w (run ((e', uv) # cs) w1)) = [] \<and>
         (\<exists>f. cb = Some f \<and>
            invocations (events_since w (run ((e', uv) # cs) w1)) =
              [Call_read f (Some ''File too large'') None 0 ud])"
proof -
  from fs_read_file_accepted [OF entry] obtain f q req where
    cb: "cb = Some f" and req: "req = calloc_fs_request_t\<lparr>arena := a, user_data := ud, read_callback := cb, path := p\<rparr>"
    and w1: "request w1 = Some req" "pending w1 = Some (uv_fs_stat p, On_read_stat)"
      "trace w1 = trace w @ [Alloc_req True, Issue (uv_fs_stat p) (Some On_read_stat)]"
    by blast
  let ?w2 = "deliver e' uv w1"
  have d: "request ?w2 = None"
    "trace ?w2 = trace w1 @ [uv_fs_req_cleanup, Call_read f (Some ''File too large'') None 0 ud] @
       frees (req\<lparr>file_size := st_size (statbuf uv)\<rparr>) False"
    using ok big w1 cb req
    by (simp_all add: deliver_def read_stat_cb_def Let_def)
  have r: "run ((e', uv) # cs) w1 = ?w2"
    using d(1) by (simp add: run_released)
  have ev: "events_since w ?w2 =
      [Alloc_req True, Issue (uv_fs_stat p) (Some On_read_stat), uv_fs_req_cleanup,
       Call_read f (Some ''File too large'') None 0 ud] @
       frees (req\<lparr>file_size := st_size (statbuf uv)\<rparr>) False"
    by (simp add: events_since_def d(2) w1(3))
  show ?thesis
    unfolding r ev using d(1) cb by (simp add: frees_def)
qed

lemma write_too_large:
  assumes "ECEWO_FS_MAX_FILE_SIZE < uint n"
  shows "fst (fs_write_internal e p d n cb ud flags w) = - 1 \<and>
         filter (\<lambda>a. \<not> is_stderr a)
           (events_since w (snd (fs_write_internal e p d n cb ud flags w))) = [] \<and>
         request (snd (fs_write_internal e p d n cb ud flags w)) = request w \<and>
         pending (snd (fs_write_internal e p d n cb ud flags w)) = pending w \<and>
         fs_state (snd (fs_write_internal e p d n cb ud flags w)) = fs_state w"
  using assms by (simp add: fs_write_internal_def events_since_def)

text \<open>
  Claim C3. A Read whose \<open>stat\<close> completes with a size above \<open>ECEWO_FS_MAX_FILE_SIZE\<close>
  ends right there: the callback is invoked with the error ``File too large'', a null
  buffer and length 0, the Record is released, and the \<open>stat\<close> is the only call the
  operation ever made into the reactor (no open, no read), with no buffer allocated;
  later completions change nothing. A Write or Append whose payload size is above the
  limit returns \<open>-1\<close> having done nothing but print a diagnostic: no Record is allocated,
  no call into the reactor is made, no callback is invoked. In neither case is a
  shortened transfer issued.
\<close>

theorem size_ceiling_rejects_before_io:
  "(fs_read_file e p a cb ud w = (0, w1) \<and> 0 \<le> result uv \<and>
    ECEWO_FS_MAX_FILE_SIZE < uint (st_size (statbuf uv)) \<longrightarrow>
      request (run ((e', uv) # cs) w1) = None \<and>
      filter is_issue (events_since w (run ((e', uv) # cs) w1)) =
        [Issue (uv_fs_stat p) (Some On_read_stat)] \<and>
      filter is_alloc_data (events_since w (run ((e', uv) # cs) w1)) = [] \<and>
      (\<exists>f. cb = Some f \<and>
         invocations (events_since w (run ((e', uv) # cs) w1)) =
           [Call_read f (Some ''File too large'') None 0 ud])) \<and>
   (ECEWO_FS_MAX_FILE_SIZE < uint n \<longrightarrow>
      fst (fs_write_file e p d n cb ud w) = - 1 \<and>
      filter (\<lambda>a. \<not> is_stderr a) (events_since w (snd (fs_write_file e p d n cb ud w))) = [] \<and>
      request (snd (fs_write_file e p d n cb ud w)) = request w \<and>
      pending (snd (fs_write_file e p d n cb ud w)) = pending w \<and>
      fst (fs_append_file e p d n cb ud w) = - 1 \<and>
      filter (\<lambda>a. \<not> is_stderr a) (events_since w (snd (fs_append_file e p d n cb ud w))) = [] \<and>
      request (snd (fs_append_file e p d n cb ud w)) = request w \<and>
      pending (snd (fs_append_file e p d n cb ud w)) = pending w)"
  using read_too_large [of e p a cb ud w w1 uv e' cs]
    write_too_large [of n e p d cb ud "{UV_FS_O_WRONLY, UV_FS_O_CREAT, UV_FS_O_TRUNC}" w]
    write_too_large [of n e p d cb ud "{UV_FS_O_WRONLY, UV_FS_O_CREAT, UV_FS_O_APPEND}" w]
  unfolding fs_write_file_def fs_append_file_def
  by blast

theorem size_ceiling_rejects_before_io_witness:
  "fs_read_file env_ok (Some ''big.bin'') None (Some 1) 0 world0 =
     (0, snd (fs_read_file env_ok (Some ''big.bin'') None (Some 1) 0 world0)) \<and>
   0 \<le> result (completion_stat 104857601) \<and>
   ECEWO_FS_MAX_FILE_SIZE < uint (st_size (statbuf (completion_stat 104857601))) \<and>
   invocations (events_since world0 (run [(env_ok, completion_stat 104857601)]
      (snd (fs_read_file env_ok (Some ''big.bin'') None (Some 1) 0 world0)))) =
     [Call_read 1 (Some ''File too large'') None 0 0] \<and>
   filter is_issue (events_since world0 (run [(env_ok, completion_stat 104857601)]
      (snd (fs_read_file env_ok (Some ''big.bin'') None (Some 1) 0 world0)))) =
     [Issue (uv_fs_stat (Some ''big.bin'')) (Some On_read_stat)] \<and>
   ECEWO_FS_MAX_FILE_SIZE < uint (104857601 :: size_t) \<and>
   fst (fs_write_file env_ok (Some ''big.bin'') (Some 7) 104857601 (Some 1) 0 world0) = - 1"
proof -
  have f: "fst (fs_read_file env_ok (Some ''big.bin'') None (Some 1) 0 world0) = 0"
    by (simp add: fs_read_file_def env_ok_def world0_def fs_state_zero_def
        fs_can_accept_operation_def ECEWO_FS_MAX_CONCURRENT_OPS_def calloc_fs_request_t_def
        Let_def)
  then have h: "fs_read_file env_ok (Some ''big.bin'') None (Some 1) 0 world0 =
     (0, snd (fs_read_file env_ok (Some ''big.bin'') None (Some 1) 0 world0))"
    by (metis prod.collapse)
  have r: "0 \<le> result (completion_stat 104857601)"
    by (simp add: completion_stat_def completion_def)
  have b: "ECEWO_FS_MAX_FILE_SIZE < uint (st_size (statbuf (completion_stat 104857601)))"
    by (simp add: completion_stat_def completion_def ECEWO_FS_MAX_FILE_SIZE_def)
  have b': "ECEWO_FS_MAX_FILE_SIZE < uint (104857601 :: size_t)"
    by (simp add: ECEWO_FS_MAX_FILE_SIZE_def)
  from size_ceiling_rejects_before_io
    [where e = env_ok and p = "Some ''big.bin''" and a = None and cb = "Some 1" and ud = 0
      and w = world0
      and ?w1.0 = "snd (fs_read_file env_ok (Some ''big.bin'') None (Some 1) 0 world0)"
      and uv = "completion_stat 104857601" and e' = env_ok and cs = "[]"
      and n = 104857601 and d = "Some 7"]
    h r b b'
  show ?thesis by auto
qed

section \<open>The error argument of a failure\<close>

text \<open>
  Every handler with a failure branch in the Read, Write/Append and Stat chains hands the
  callback \<open>req->error_msg ? req->error_msg : fallback\<close>, and so does every entry point
  on its synchronous failure path (\<open>entry_ok\<close> above): the error is never null there.
\<close>

lemma chain_error_never_null:
  assumes "result uv < 0" "live cb ud w" "pending w = Some (c, k)"
    "k \<in> {On_read_stat, On_read_open, On_read_data, On_write_open, On_write_data, On_stat}"
  shows "\<exists>a. invocations (events_since w (deliver e uv w)) = [a] \<and> error_arg a \<noteq> None"
proof -
  from assms(2,3) obtain req where w: "request w = Some req"
    "handler_callback k req = Some cb"
    by (auto simp: live_def split: option.splits)
  show ?thesis
    using assms(1,3,4) w
    by (cases k)
      (simp_all add: deliver_def read_stat_cb_def read_open_cb_def read_data_cb_def
        write_open_cb_def write_data_cb_def stat_cb_def Let_def events_since_def)
qed

text \<open>
  \<open>simple_op_cb\<close> and \<open>rename_cb\<close> hand over \<open>req->error_msg\<close> itself, which is null when
  \<open>make_error_msg\<close> could not allocate.
\<close>

lemma single_step_error_is_error_msg:
  assumes "result uv < 0" "write_callback req = Some f"
  shows "invocations (events_since w (simple_op_cb e uv req w)) =
           [Call_write f (make_error_msg e (result uv)) (user_data req)]"
    and "invocations (events_since w (rename_cb e uv req w)) =
           [Call_write f (make_error_msg e (result uv)) (user_data req)]"
    and "\<not> malloc_msg_ok e \<Longrightarrow> make_error_msg e (result uv) = None"
  using assms
  by (simp_all add: simple_op_cb_def rename_cb_def Let_def events_since_def make_error_msg_def)

text \<open>
  Claim C5 on this code. \<open>fs_unlink\<close> of a missing file is admitted, the reactor
  completes it with \<open>UV_ENOENT\<close>, and the allocation in \<open>make_error_msg\<close> fails: the
  callback is invoked with a null error, as on success, although the failure was
  counted. \<open>fs_rename\<close> does the same. \<open>fs_stat\<close> in the same situation passes its
  fallback string.
\<close>

theorem simple_op_cb_null_error_on_failure:
  "invocations (events_since world0 (run [(env_no_msg, completion UV_ENOENT)]
      (snd (invoke env_ok (Unlink (Some ''gone.txt'') (Some 1) 0) world0)))) =
     [Call_write 1 None 0] \<and>
   failed_operations (fs_state (run [(env_no_msg, completion UV_ENOENT)]
      (snd (invoke env_ok (Unlink (Some ''gone.txt'') (Some 1) 0) world0)))) = 1 \<and>
   invocations (events_since world0 (run [(env_no_msg, completion UV_ENOENT)]
      (snd (invoke env_ok (Rename (Some ''gone.txt'') (Some ''b.txt'') (Some 1) 0) world0)))) =
     [Call_write 1 None 0] \<and>
   invocations (events_since world0 (run [(env_no_msg, completion UV_ENOENT)]
      (snd (invoke env_ok (Stat (Some ''gone.txt'') (Some 1) 0) world0)))) =
     [Call_stat 1 (Some ''Stat failed'') None 0]"
  by (simp add: fs_unlink_def fs_simple_op_def fs_rename_def fs_stat_def env_no_msg_def
      env_ok_def world0_def fs_state_zero_def
      fs_can_accept_operation_def ECEWO_FS_MAX_CONCURRENT_OPS_def calloc_fs_request_t_def
      Let_def deliver_def simple_op_cb_def rename_cb_def stat_cb_def completion_def UV_ENOENT_def
      make_error_msg_def events_since_def fs_begin_operation_def fs_end_operation_def
      fs_record_error_def or_else_def)

section \<open>Where the Read chain allocates its buffer\<close>

lemma size_within_limit:
  fixes x :: size_t
  assumes "uint x \<le> ECEWO_FS_MAX_FILE_SIZE"
  shows "unat (x + 1) = unat x + 1" and "unat (ucast x :: 32 word) = unat x"
proof -
  have "uint x \<le> 104857600"
    using assms by (simp add: ECEWO_FS_MAX_FILE_SIZE_def)
  then have u: "unat x \<le> 104857600"
    unfolding unat_eq_nat_uint by linarith
  have "unat (1 :: size_t) = 1" by simp
  with u have "unat x + unat (1 :: size_t) < 2 ^ LENGTH(64)" by simp
  then have "unat (x + 1) = unat x + unat (1 :: size_t)"
    by (rule unat_add_lem [THEN iffD1])
  then show "unat (x + 1) = unat x + 1" by simp
  have "unat (ucast x :: 32 word) = take_bit LENGTH(32) (unat x)"
    by (rule unsigned_ucast_eq)
  also have "\<dots> = unat x"
    using u by (intro take_bit_nat_eq_self) simp
  finally show "unat (ucast x :: 32 word) = unat x" .
qed

text \<open>
  Claim C6, as stated, fails: the buffer is not allocated before the open is issued.
  For a file of 5 bytes, after the \<open>stat\<close> completion the open has been issued and the
  Record has no buffer; the allocation of 6 bytes comes after the open has completed.
\<close>

theorem buffer_allocated_before_open_counterexample:
  "events_since world0 (run [(env_ok, completion_stat 5)]
      (snd (invoke env_ok (Read_file (Some ''a.txt'') None (Some 1) 0) world0))) =
     [Alloc_req True, Issue (uv_fs_stat (Some ''a.txt'')) (Some On_read_stat),
      uv_fs_req_cleanup,
      Issue (uv_fs_open (Some ''a.txt'') {UV_FS_O_RDONLY} 0) (Some On_read_open)] \<and>
   map_option data (request (run [(env_ok, completion_stat 5)]
      (snd (invoke env_ok (Read_file (Some ''a.txt'') None (Some 1) 0) world0)))) = Some None \<and>
   events_since world0 (run [(env_ok, completion_stat 5), (env_ok, completion 3)]
      (snd (invoke env_ok (Read_file (Some ''a.txt'') None (Some 1) 0) world0))) =
     [Alloc_req True, Issue (uv_fs_stat (Some ''a.txt'')) (Some On_read_stat),
      uv_fs_req_cleanup,
      Issue (uv_fs_open (Some ''a.txt'') {UV_FS_O_RDONLY} 0) (Some On_read_open),
      uv_fs_req_cleanup, Alloc_data None 6 True,
      Issue (uv_fs_read 3 5 0) (Some On_read_data)]"
  by (simp add: fs_read_file_def env_ok_def world0_def fs_state_zero_def
      fs_can_accept_operation_def ECEWO_FS_MAX_CONCURRENT_OPS_def ECEWO_FS_MAX_FILE_SIZE_def
      calloc_fs_request_t_def Let_def deliver_def read_stat_cb_def read_open_cb_def
      completion_def completion_stat_def events_since_def accepted_def)

text \<open>
  Claim C6, amended. In the Read chain, once the size check has passed, the handler of
  the \<open>stat\<close> completion issues \<open>open(path, read-only)\<close> without allocating anything.
  The destination buffer of \<open>file_size + 1\<close> bytes is allocated by the handler of the
  open completion, when the open succeeded: from the arena when one was supplied,
  otherwise from the heap. If the allocation succeeds the read of \<open>file_size\<close> bytes at
  offset 0 is issued next; if it fails the file is closed and the Record released.
\<close>

theorem read_buffer_allocated_after_open:
  assumes entry: "fs_read_file e p a cb ud w = (0, w1)"
    and stat_ok: "0 \<le> result uv1"
    and small: "uint (st_size (statbuf uv1)) \<le> ECEWO_FS_MAX_FILE_SIZE"
    and open_ok: "0 \<le> result uv2"
  shows "events_since w (run [(e1, uv1)] w1) =
           [Alloc_req True, Issue (uv_fs_stat p) (Some On_read_stat), uv_fs_req_cleanup,
            Issue (uv_fs_open p {UV_FS_O_RDONLY} 0) (Some On_read_open)] \<and>
         map_option data (request (run [(e1, uv1)] w1)) = Some None \<and>
         (\<exists>rest. events_since w (run [(e1, uv1), (e2, uv2)] w1) =
            [Alloc_req True, Issue (uv_fs_stat p) (Some On_read_stat), uv_fs_req_cleanup,
             Issue (uv_fs_open p {UV_FS_O_RDONLY} 0) (Some On_read_open),
             uv_fs_req_cleanup,
             Alloc_data a (unat (st_size (statbuf uv1)) + 1) (malloc_data_ok e2)] @ rest \<and>
            (malloc_data_ok e2 \<longrightarrow>
               rest = [Issue (uv_fs_read (result uv2) (unat (st_size (statbuf uv1))) 0)
                         (Some On_read_data)] \<and>
               (\<exists>buf. map_option data (request (run [(e1, uv1), (e2, uv2)] w1)) =
                        Some (Some buf) \<and>
                      length buf = unat (st_size (statbuf uv1)) + 1)) \<and>
            (\<not> malloc_data_ok e2 \<longrightarrow>
               filter is_issue rest = [Issue (uv_fs_close (result uv2)) None] \<and>
               request (run [(e1, uv1), (e2, uv2)] w1) = None))"
proof -
  from fs_read_file_accepted [OF entry] obtain f q req where
    cb: "cb = Some f" and req: "req = calloc_fs_request_t\<lparr>arena := a, user_data := ud, read_callback := cb, path := p\<rparr>"
    and w1: "request w1 = Some req" "pending w1 = Some (uv_fs_stat p, On_read_stat)"
      "trace w1 = trace w @ [Alloc_req True, Issue (uv_fs_stat p) (Some On_read_stat)]"
    by blast
  let ?req2 = "req\<lparr>file_size := st_size (statbuf uv1)\<rparr>"
  let ?w2 = "deliver e1 uv1 w1"
  have d2: "request ?w2 = Some ?req2"
    "pending ?w2 = Some (uv_fs_open p {UV_FS_O_RDONLY} 0, On_read_open)"
    "trace ?w2 = trace w1 @ [uv_fs_req_cleanup,
       Issue (uv_fs_open p {UV_FS_O_RDONLY} 0) (Some On_read_open)]"
    using stat_ok small w1 req
    by (simp_all add: deliver_def read_stat_cb_def Let_def calloc_fs_request_t_def)
  have dat: "data ?req2 = None" "arena ?req2 = a" "file_size ?req2 = st_size (statbuf uv1)"
    by (simp_all add: req calloc_fs_request_t_def)
  let ?w3 = "deliver e2 uv2 ?w2"
  note sz = size_within_limit [OF small]
  have first: "events_since w (run [(e1, uv1)] w1) =
           [Alloc_req True, Issue (uv_fs_stat p) (Some On_read_stat), uv_fs_req_cleanup,
            Issue (uv_fs_open p {UV_FS_O_RDONLY} 0) (Some On_read_open)]"
    by (simp add: events_since_def d2(3) w1(3))
  have second: "map_option data (request (run [(e1, uv1)] w1)) = Some None"
    by (simp add: d2(1) dat(1))
  have tr3: "\<exists>rest. trace ?w3 = trace ?w2 @
       [uv_fs_req_cleanup,
        Alloc_data a (unat (st_size (statbuf uv1)) + 1) (malloc_data_ok e2)] @ rest \<and>
       (malloc_data_ok e2 \<longrightarrow>
          rest = [Issue (uv_fs_read (result uv2) (unat (st_size (statbuf uv1))) 0)
                    (Some On_read_data)] \<and>
          (\<exists>buf. map_option data (request ?w3) = Some (Some buf) \<and>
                 length buf = unat (st_size (statbuf uv1)) + 1)) \<and>
       (\<not> malloc_data_ok e2 \<longrightarrow>
          filter is_issue rest = [Issue (uv_fs_close (result uv2)) None] \<and>
          request ?w3 = None)"
    using open_ok d2(1,2) dat sz
    by (simp add: deliver_def read_open_cb_def Let_def frees_def split: option.splits)
  then obtain rest where rest: "trace ?w3 = trace ?w2 @
       [uv_fs_req_cleanup,
        Alloc_data a (unat (st_size (statbuf uv1)) + 1) (malloc_data_ok e2)] @ rest"
    and more: "(malloc_data_ok e2 \<longrightarrow>
          rest = [Issue (uv_fs_read (result uv2) (unat (st_size (statbuf uv1))) 0)
                    (Some On_read_data)] \<and>
          (\<exists>buf. map_option data (request ?w3) = Some (Some buf) \<and>
                 length buf = unat (st_size (statbuf uv1)) + 1)) \<and>
       (\<not> malloc_data_ok e2 \<longrightarrow>
          filter is_issue rest = [Issue (uv_fs_close (result uv2)) None] \<and>
          request ?w3 = None)"
    by blast
  have third: "events_since w (run [(e1, uv1), (e2, uv2)] w1) =
            [Alloc_req True, Issue (uv_fs_stat p) (Some On_read_stat), uv_fs_req_cleanup,
             Issue (uv_fs_open p {UV_FS_O_RDONLY} 0) (Some On_read_open),
             uv_fs_req_cleanup,
             Alloc_data a (unat (st_size (statbuf uv1)) + 1) (malloc_data_ok e2)] @ rest"
    by (simp add: events_since_def rest d2(3) w1(3))
  have r3: "run [(e1, uv1), (e2, uv2)] w1 = ?w3" by simp
  from first second third more show ?thesis
    unfolding r3 by blast
qed

theorem read_buffer_allocated_after_open_witness:
  "fs_read_file env_ok (Some ''a.txt'') None (Some 1) 0 world0 =
     (0, snd (fs_read_file env_ok (Some ''a.txt'') None (Some 1) 0 world0)) \<and>
   0 \<le> result (completion_stat 5) \<and>
   uint (st_size (statbuf (completion_stat 5))) \<le> ECEWO_FS_MAX_FILE_SIZE \<and>
   0 \<le> result (completion 3) \<and>
   events_since world0 (run [(env_ok, completion_stat 5)]
      (snd (fs_read_file env_ok (Some ''a.txt'') None (Some 1) 0 world0))) =
     [Alloc_req True, Issue (uv_fs_stat (Some ''a.txt'')) (Some On_read_stat),
      uv_fs_req_cleanup,
      Issue (uv_fs_open (Some ''a.txt'') {UV_FS_O_RDONLY} 0) (Some On_read_open)] \<and>
   map_option data (request (run [(env_ok, completion_stat 5)]
      (snd (fs_read_file env_ok (Some ''a.txt'') None (Some 1) 0 world0)))) = Some None"
proof -
  have f: "fst (fs_read_file env_ok (Some ''a.txt'') None (Some 1) 0 world0) = 0"
    by (simp add: fs_read_file_def env_ok_def world0_def fs_state_zero_def
        fs_can_accept_operation_def ECEWO_FS_MAX_CONCURRENT_OPS_def calloc_fs_request_t_def
        Let_def)
  then have h: "fs_read_file env_ok (Some ''a.txt'') None (Some 1) 0 world0 =
     (0, snd (fs_read_file env_ok (Some ''a.txt'') None (Some 1) 0 world0))"
    by (metis prod.collapse)
  have r: "0 \<le> result (completion_stat 5)"
    by (simp add: completion_stat_def completion_def)
  have b: "uint (st_size (statbuf (completion_stat 5))) \<le> ECEWO_FS_MAX_FILE_SIZE"
    by (simp add: completion_stat_def completion_def ECEWO_FS_MAX_FILE_SIZE_def)
  have o: "0 \<le> result (completion 3)"
    by (simp add: completion_def)
  from read_buffer_allocated_after_open [OF h r b o, of env_ok env_ok] h r b o
  show ?thesis by blast
qed


section \<open>A write followed by a read\<close>

lemma drive_step:
  "pending w = Some (c, k) \<Longrightarrow> serve R c = Some (R1, uv) \<Longrightarrow>
   drive (e # es) R w =
     drive es (apply_sync (events_since w (deliver e uv w)) R1) (deliver e uv w)"
  by (simp add: events_since_def Let_def)

lemma drive_idle: "pending w = None \<Longrightarrow> drive es R w = (R, w)"
  by (cases es) simp_all

lemma serve_limit: "serve R c = Some (R1, uv) \<Longrightarrow> transfer_limit R1 = transfer_limit R"
  by (cases "(R, c)" rule: serve.cases)
    (auto simp: Let_def split: option.splits if_splits)

lemma apply_sync_limit: "transfer_limit (apply_sync evs R) = transfer_limit R"
proof (induction evs R rule: apply_sync.induct)
  case (2 c evs R)
  then show ?case
    by (cases "serve R c") (auto dest: serve_limit)
qed simp_all

lemma drive_limit: "drive es R w = (R', w') \<Longrightarrow> transfer_limit R' = transfer_limit R"
proof (induction es arbitrary: R w)
  case Nil
  then show ?case by simp
next
  case (Cons e es)
  show ?case
  proof (cases "pending w")
    case None
    with Cons.prems show ?thesis by simp
  next
    case (Some ck)
    obtain c k where ck: "ck = (c, k)" by (cases ck)
    show ?thesis
    proof (cases "serve R c")
      case None
      with Cons.prems Some ck show ?thesis by simp
    next
      case s: (Some Ru)
      obtain R1 uv where Ru: "Ru = (R1, uv)" by (cases Ru)
      let ?w1 = "deliver e uv w"
      let ?R2 = "apply_sync (drop (length (trace w)) (trace ?w1)) R1"
      from Cons.prems Some ck s Ru have d: "drive es ?R2 ?w1 = (R', w')"
        by (simp add: Let_def)
      from Cons.IH [OF d] have "transfer_limit R' = transfer_limit ?R2" .
      with serve_limit [OF s [unfolded Ru]] show ?thesis
        by (simp add: apply_sync_limit)
    qed
  qed
qed

lemma perform_limit:
  assumes "perform e es c later R w = (r, R', w')"
  shows "transfer_limit R' = transfer_limit R"
proof -
  obtain r0 w0 where i: "invoke e c w = (r0, w0)" by (cases "invoke e c w")
  show ?thesis
  proof (cases "r0 = 0")
    case True
    obtain R1 w1 where d: "drive es R (w0\<lparr>caller_mem := later\<rparr>) = (R1, w1)"
      by (cases "drive es R (w0\<lparr>caller_mem := later\<rparr>)")
    from assms i True d have "R' = R1" by (simp add: perform_def)
    with drive_limit [OF d] show ?thesis by simp
  next
    case False
    with assms i show ?thesis by (simp add: perform_def)
  qed
qed

lemma store_bytes_exact: "length bs = length buf \<Longrightarrow> store_bytes bs buf = bs"
  by (simp add: store_bytes_def)

lemma payload_size:
  assumes "int n \<le> ECEWO_FS_MAX_FILE_SIZE"
  shows "unat (of_nat n :: size_t) = n"
    and "uint (of_nat n :: size_t) \<le> ECEWO_FS_MAX_FILE_SIZE"
    and "unat (ucast (of_nat n :: size_t) :: 32 word) = n"
    and "unat ((of_nat n :: size_t) + 1) = n + 1"
proof -
  from assms have n: "n \<le> 104857600"
    by (simp add: ECEWO_FS_MAX_FILE_SIZE_def)
  then have "n < 2 ^ LENGTH(64)" by simp
  then show u: "unat (of_nat n :: size_t) = n"
    by (simp add: unat_of_nat)
  then have "uint (of_nat n :: size_t) = int n"
    unfolding uint_nat by simp
  with assms show le: "uint (of_nat n :: size_t) \<le> ECEWO_FS_MAX_FILE_SIZE" by simp
  from size_within_limit [OF le] u
  show "unat (ucast (of_nat n :: size_t) :: 32 word) = n"
    and "unat ((of_nat n :: size_t) + 1) = n + 1"
    by simp_all
qed

lemma write_stage_open:
  assumes "request w = Some req"
    and "pending w =
      Some (uv_fs_open (Some P) {UV_FS_O_WRONLY, UV_FS_O_CREAT, UV_FS_O_TRUNC} 420, On_write_open)"
    and "data req = Some D" and "size' req = of_nat (length D)"
    and "int (length D) \<le> ECEWO_FS_MAX_FILE_SIZE"
  obtains R1 w1 where
    "drive (e # es) R w = drive es R1 w1"
    "files R1 P = Some []"
    "open_files R1 (int (next_fd R)) = Some (P, {UV_FS_O_WRONLY, UV_FS_O_CREAT, UV_FS_O_TRUNC})"
    "request w1 = Some (req\<lparr>file' := int (next_fd R)\<rparr>)"
    "pending w1 = Some (uv_fs_write (int (next_fd R)) (Some D) (length D) 0, On_write_data)"
    "trace w1 = trace w @ [uv_fs_req_cleanup,
       Issue (uv_fs_write (int (next_fd R)) (Some D) (length D) 0) (Some On_write_data)]"
    "transfer_limit R1 = transfer_limit R"
proof -
  let ?F = "{UV_FS_O_WRONLY, UV_FS_O_CREAT, UV_FS_O_TRUNC}"
  let ?fd = "int (next_fd R)"
  let ?R1 = "R\<lparr>files := (files R)(P \<mapsto> []), open_files := (open_files R)(?fd \<mapsto> (P, ?F)),
               next_fd := next_fd R + 1\<rparr>"
  let ?w1 = "deliver e (completion ?fd) w"
  have s: "serve R (uv_fs_open (Some P) ?F 420) = Some (?R1, completion ?fd)"
    by (simp add: Let_def split: option.splits)
  have w1: "request ?w1 = Some (req\<lparr>file' := ?fd\<rparr>)"
    "pending ?w1 = Some (uv_fs_write ?fd (Some D) (length D) 0, On_write_data)"
    "trace ?w1 = trace w @ [uv_fs_req_cleanup,
       Issue (uv_fs_write ?fd (Some D) (length D) 0) (Some On_write_data)]"
    using assms payload_size(3) [OF assms(5)]
    by (simp_all add: deliver_def write_open_cb_def completion_def Let_def)
  have ev: "events_since w ?w1 = [uv_fs_req_cleanup,
       Issue (uv_fs_write ?fd (Some D) (length D) 0) (Some On_write_data)]"
    by (simp add: events_since_def w1(3))
  have d: "drive (e # es) R w = drive es ?R1 ?w1"
    using drive_step [OF assms(2) s, of e es] by (simp add: ev)
  have x: "files ?R1 P = Some []" "open_files ?R1 ?fd = Some (P, ?F)" by simp_all
  have l: "transfer_limit ?R1 = transfer_limit R" by simp
  show thesis by (rule that [OF d x w1 l])
qed

lemma write_stage_data:
  assumes "request w = Some req"
    and "pending w = Some (uv_fs_write fd (Some D) (length D) 0, On_write_data)"
    and "open_files R fd = Some (P, {UV_FS_O_WRONLY, UV_FS_O_CREAT, UV_FS_O_TRUNC})"
    and "files R P = Some []"
    and "file' req = fd"
    and "length D \<le> transfer_limit R"
  obtains R1 w1 where
    "drive (e # es) R w = drive es R1 w1"
    "files R1 P = Some D"
    "open_files R1 fd = Some (P, {UV_FS_O_WRONLY, UV_FS_O_CREAT, UV_FS_O_TRUNC})"
    "request w1 = Some (req\<lparr>size' := of_nat (length D)\<rparr>)"
    "pending w1 = Some (uv_fs_close fd, On_write_close)"
    "trace w1 = trace w @ [uv_fs_req_cleanup, Issue (uv_fs_close fd) (Some On_write_close)]"
proof -
  let ?R1 = "R\<lparr>files := (files R)(P \<mapsto> D)\<rparr>"
  let ?uv = "completion (int (length D))"
  let ?w1 = "deliver e ?uv w"
  have s: "serve R (uv_fs_write fd (Some D) (length D) 0) = Some (?R1, ?uv)"
    using assms(3,4,6) by (simp add: write_at_def Let_def min_absorb1)
  have w1: "request ?w1 = Some (req\<lparr>size' := of_nat (length D)\<rparr>)"
    "pending ?w1 = Some (uv_fs_close fd, On_write_close)"
    "trace ?w1 = trace w @ [uv_fs_req_cleanup, Issue (uv_fs_close fd) (Some On_write_close)]"
    using assms(1,2,5)
    by (simp_all add: deliver_def write_data_cb_def completion_def Let_def)
  have ev: "events_since w ?w1 =
      [uv_fs_req_cleanup, Issue (uv_fs_close fd) (Some On_write_close)]"
    by (simp add: events_since_def w1(3))
  have "drive (e # es) R w = drive es ?R1 ?w1"
    using drive_step [OF assms(2) s, of e es] by (simp add: ev)
  moreover have "files ?R1 P = Some D"
    "open_files ?R1 fd = Some (P, {UV_FS_O_WRONLY, UV_FS_O_CREAT, UV_FS_O_TRUNC})"
    using assms(3) by simp_all
  ultimately show thesis using w1 by (rule that)
qed

lemma write_stage_close:
  assumes "request w = Some req"
    and "pending w = Some (uv_fs_close fd, On_write_close)"
    and "open_files R fd = Some x"
  obtains R1 w1 where
    "drive (e # es) R w = (R1, w1)"
    "files R1 = files R"
    "request w1 = None"
    "trace w1 = trace w @
       [uv_fs_req_cleanup] @
       (case write_callback req of None \<Rightarrow> [] | Some f \<Rightarrow> [Call_write f None (user_data req)]) @
       frees req True"
proof -
  let ?R1 = "R\<lparr>open_files := (open_files R)(fd := None)\<rparr>"
  let ?w1 = "deliver e (completion 0) w"
  have s: "serve R (uv_fs_close fd) = Some (?R1, completion 0)"
    using assms(3) by simp
  have w1: "request ?w1 = None" "pending ?w1 = None"
    "trace ?w1 = trace w @
       [uv_fs_req_cleanup] @
       (case write_callback req of None \<Rightarrow> [] | Some f \<Rightarrow> [Call_write f None (user_data req)]) @
       frees req True"
    using assms
    by (simp_all add: deliver_def write_close_cb_def Let_def)
  have sync: "apply_sync (events_since w ?w1) ?R1 = ?R1"
    by (simp add: events_since_def w1(3) frees_def split: option.splits)
  have "drive (e # es) R w = (?R1, ?w1)"
    using drive_step [OF assms(2) s, of e es] by (simp add: sync drive_idle w1(2))
  moreover have "files ?R1 = files R" by simp
  ultimately show thesis using w1(1,3) by (rule that)
qed


lemma no_callback_in:
  "invocations evs = [] \<Longrightarrow> is_callback a \<Longrightarrow> a \<notin> set evs"
  by (auto simp: invocations_def filter_empty_conv)

lemma only_callback_in:
  "invocations evs = [a] \<Longrightarrow> is_callback b \<Longrightarrow> b \<in> set evs \<Longrightarrow> b = a"
proof -
  assume i: "invocations evs = [a]" and c: "is_callback b" and m: "b \<in> set evs"
  from c m have "b \<in> set (filter is_callback evs)" by simp
  with i show "b = a" by (simp add: invocations_def)
qed

lemma rejected_has_no_success:
  assumes "entry_ok cb ud w r w1" "r \<noteq> 0" "is_callback b" "error_arg b = None"
  shows "b \<notin> set (events_since w w1)"
proof
  assume b: "b \<in> set (events_since w w1)"
  show False
  proof (cases "filter is_issue (events_since w w1) = []")
    case True
    with assms(1) have "invocations (events_since w w1) = []"
      by (simp add: entry_ok_def)
    from no_callback_in [OF this assms(3)] b show False by simp
  next
    case False
    with assms(1,2) obtain a where "invocations (events_since w w1) = [a]" "error_arg a \<noteq> None"
      by (auto simp: entry_ok_def)
    with only_callback_in [OF this(1) assms(3) b] assms(4) show False by simp
  qed
qed

lemma fs_write_internal_accepted:
  assumes "fs_write_internal e p (Some a) n cb ud flags w = (0, w1)"
  shows "\<exists>req. request w1 = Some req \<and>
           data req = Some (store_bytes (take (unat n) (caller_mem w a))
                              (map (fresh_byte e) [0..<unat n])) \<and>
           size' req = n \<and>
           path req = p \<and> write_callback req = cb \<and> user_data req = ud \<and>
           pending w1 = Some (uv_fs_open p flags 420, On_write_open) \<and>
           trace w1 = trace w @ [Alloc_req True, Alloc_data None (unat n) True,
                                 Issue (uv_fs_open p flags 420) (Some On_write_open)]"
  using assms unfolding fs_write_internal_def Let_def
  by (auto split: if_splits simp: calloc_fs_request_t_def)

text \<open>
  The Record's buffer holds the payload as soon as the entry point has returned 0: the
  first \<open>n\<close> bytes at the caller's pointer, in a buffer of \<open>n\<close> bytes allocated for the
  Record.
\<close>

lemma fs_write_internal_copies:
  assumes acc: "fs_write_internal e p (Some a) (of_nat (length D)) cb ud flags w = (0, w1)"
    and len: "int (length D) \<le> ECEWO_FS_MAX_FILE_SIZE"
    and mem: "take (length D) (caller_mem w a) = D"
  shows "\<exists>req. request w1 = Some req \<and> data req = Some D \<and> size' req = of_nat (length D) \<and>
           path req = p \<and> write_callback req = cb \<and> user_data req = ud \<and>
           pending w1 = Some (uv_fs_open p flags 420, On_write_open) \<and>
           trace w1 = trace w @ [Alloc_req True, Alloc_data None (length D) True,
                                 Issue (uv_fs_open p flags 420) (Some On_write_open)]"
proof -
  have u: "unat (of_nat (length D) :: size_t) = length D"
    by (rule payload_size(1) [OF len])
  have "store_bytes (take (length D) (caller_mem w a)) (map (fresh_byte e) [0..<length D]) = D"
    unfolding mem by (rule store_bytes_exact) simp
  with fs_write_internal_accepted [OF acc] show ?thesis
    unfolding u by auto
qed

lemma write_phase:
  assumes len: "int (length D) \<le> ECEWO_FS_MAX_FILE_SIZE"
    and mem: "take (length D) (caller_mem w a) = D"
    and full: "length D \<le> transfer_limit R"
    and run: "perform e es (Write_file (Some P) (Some a) (of_nat (length D)) cb ud) later R w =
                (r, R', w')"
    and ok: "Call_write f None ud' \<in> set (events_since w w')"
  shows "files R' P = Some D \<and>
         Alloc_data None (length D) True \<in> set (events_since w w') \<and>
         (\<exists>fd. Issue (uv_fs_write fd (Some D) (length D) 0) (Some On_write_data)
                 \<in> set (events_since w w'))"
proof -
  let ?F = "{UV_FS_O_WRONLY, UV_FS_O_CREAT, UV_FS_O_TRUNC}"
  let ?n = "of_nat (length D) :: size_t"
  let ?ok = "Call_write f None ud'"
  have cbk: "is_callback ?ok" "error_arg ?ok = None" by simp_all
  obtain r0 v0 where inv: "fs_write_internal e (Some P) (Some a) ?n cb ud ?F w = (r0, v0)"
    by (cases "fs_write_internal e (Some P) (Some a) ?n cb ud ?F w")
  show ?thesis
  proof (cases "r0 = 0")
    case False
    with run inv have "w' = v0" by (simp add: perform_def fs_write_file_def)
    with rejected_has_no_success [OF fs_write_internal_entry [OF inv] False cbk] ok
    show ?thesis by simp
  next
    case True
    let ?w0 = "v0\<lparr>caller_mem := later\<rparr>"
    from True run inv have dr: "drive es R ?w0 = (R', w')" and r: "r = 0"
      by (auto simp: perform_def fs_write_file_def split: prod.splits)
    from fs_write_internal_copies [OF inv [unfolded True] len mem]
    obtain req where req: "request ?w0 = Some req" "data req = Some D" "size' req = ?n"
      "write_callback req = cb" "user_data req = ud"
      and p0: "pending ?w0 = Some (uv_fs_open (Some P) ?F 420, On_write_open)"
      and t0: "trace ?w0 = trace w @ [Alloc_req True, Alloc_data None (length D) True,
                                 Issue (uv_fs_open (Some P) ?F 420) (Some On_write_open)]"
      by auto
    show ?thesis
    proof (cases es)
      case Nil
      with dr have "w' = ?w0" by simp
      with ok t0 show ?thesis by (simp add: events_since_def)
    next
      case es: (Cons e1 es1)
      from write_stage_open [OF req(1) p0 req(2,3) len, of e1 es1 R]
      obtain R1 w1 where s1: "drive (e1 # es1) R ?w0 = drive es1 R1 w1"
        "files R1 P = Some []"
        "open_files R1 (int (next_fd R)) = Some (P, ?F)"
        "request w1 = Some (req\<lparr>file' := int (next_fd R)\<rparr>)"
        "pending w1 = Some (uv_fs_write (int (next_fd R)) (Some D) (length D) 0, On_write_data)"
        "trace w1 = trace ?w0 @ [uv_fs_req_cleanup,
           Issue (uv_fs_write (int (next_fd R)) (Some D) (length D) 0) (Some On_write_data)]"
        "transfer_limit R1 = transfer_limit R"
        by blast
      from dr es s1(1) have dr1: "drive es1 R1 w1 = (R', w')" by simp
      have full1: "length D \<le> transfer_limit R1" using full s1(7) by simp
      show ?thesis
      proof (cases es1)
        case Nil
        with dr1 have "w' = w1" by simp
        with ok t0 s1(6) show ?thesis by (simp add: events_since_def)
      next
        case es1: (Cons e2 es2)
        have f: "file' (req\<lparr>file' := int (next_fd R)\<rparr>) = int (next_fd R)" by simp
        from write_stage_data [OF s1(4,5,3,2) f full1, of e2 es2]
        obtain R2 w2 where s2: "drive (e2 # es2) R1 w1 = drive es2 R2 w2"
          "files R2 P = Some D"
          "open_files R2 (int (next_fd R)) = Some (P, ?F)"
          "request w2 = Some (req\<lparr>file' := int (next_fd R), size' := of_nat (length D)\<rparr>)"
          "pending w2 = Some (uv_fs_close (int (next_fd R)), On_write_close)"
          "trace w2 = trace w1 @ [uv_fs_req_cleanup,
             Issue (uv_fs_close (int (next_fd R))) (Some On_write_close)]"
          by blast
        from dr1 es1 s2(1) have dr2: "drive es2 R2 w2 = (R', w')" by simp
        show ?thesis
        proof (cases es2)
          case Nil
          with dr2 have "w' = w2" by simp
          with ok t0 s1(6) s2(6) show ?thesis by (simp add: events_since_def)
        next
          case es2: (Cons e3 es3)
          from write_stage_close [OF s2(4,5,3), of e3 es3]
          obtain R3 w3 where s3: "drive (e3 # es3) R2 w2 = (R3, w3)" "files R3 = files R2"
            "trace w3 = trace w2 @
               [uv_fs_req_cleanup] @
               (case write_callback (req\<lparr>file' := int (next_fd R), size' := of_nat (length D)\<rparr>) of
                  None \<Rightarrow> []
                | Some f \<Rightarrow> [Call_write f None
                     (user_data (req\<lparr>file' := int (next_fd R), size' := of_nat (length D)\<rparr>))]) @
               frees (req\<lparr>file' := int (next_fd R), size' := of_nat (length D)\<rparr>) True"
            by blast
          from dr2 es2 s3(1) have R': "R' = R3" and w': "w' = w3" by simp_all
          have a: "files R' P = Some D" using R' s3(2) s2(2) by simp
          have pre: "trace w2 = trace w @
              [Alloc_req True, Alloc_data None (length D) True,
               Issue (uv_fs_open (Some P) ?F 420) (Some On_write_open), uv_fs_req_cleanup,
               Issue (uv_fs_write (int (next_fd R)) (Some D) (length D) 0) (Some On_write_data),
               uv_fs_req_cleanup, Issue (uv_fs_close (int (next_fd R))) (Some On_write_close)]"
            using t0 s1(6) s2(6) by simp
          obtain rest where ev: "events_since w w3 =
              [Alloc_req True, Alloc_data None (length D) True,
               Issue (uv_fs_open (Some P) ?F 420) (Some On_write_open), uv_fs_req_cleanup,
               Issue (uv_fs_write (int (next_fd R)) (Some D) (length D) 0) (Some On_write_data),
               uv_fs_req_cleanup, Issue (uv_fs_close (int (next_fd R))) (Some On_write_close)] @
              rest"
            using events_since_trans [OF pre s3(3)] by blast
          have b: "Alloc_data None (length D) True \<in> set (events_since w w')"
            unfolding w' ev by simp
          have c: "Issue (uv_fs_write (int (next_fd R)) (Some D) (length D) 0) (Some On_write_data)
                 \<in> set (events_since w w')"
            unfolding w' ev by simp
          from a b c show ?thesis by blast
        qed
      qed
    qed
  qed
qed

lemma read_stage_stat:
  assumes "request w = Some req"
    and "pending w = Some (uv_fs_stat (Some P), On_read_stat)"
    and "files R P = Some D"
    and "int (length D) \<le> ECEWO_FS_MAX_FILE_SIZE"
    and "path req = Some P"
  obtains w1 where
    "drive (e # es) R w = drive es R w1"
    "request w1 = Some (req\<lparr>file_size := of_nat (length D)\<rparr>)"
    "pending w1 = Some (uv_fs_open (Some P) {UV_FS_O_RDONLY} 0, On_read_open)"
    "trace w1 = trace w @ [uv_fs_req_cleanup,
       Issue (uv_fs_open (Some P) {UV_FS_O_RDONLY} 0) (Some On_read_open)]"
proof -
  let ?uv = "(completion 0)\<lparr>statbuf := (statbuf (completion 0))\<lparr>st_size := of_nat (length D)\<rparr>\<rparr>"
  let ?w1 = "deliver e ?uv w"
  have s: "serve R (uv_fs_stat (Some P)) = Some (R, ?uv)"
    using assms(3) by simp
  have w1: "request ?w1 = Some (req\<lparr>file_size := of_nat (length D)\<rparr>)"
    "pending ?w1 = Some (uv_fs_open (Some P) {UV_FS_O_RDONLY} 0, On_read_open)"
    "trace ?w1 = trace w @ [uv_fs_req_cleanup,
       Issue (uv_fs_open (Some P) {UV_FS_O_RDONLY} 0) (Some On_read_open)]"
    using assms(1,2,5) payload_size(2) [OF assms(4)]
    by (simp_all add: deliver_def read_stat_cb_def completion_def Let_def)
  have ev: "events_since w ?w1 = [uv_fs_req_cleanup,
       Issue (uv_fs_open (Some P) {UV_FS_O_RDONLY} 0) (Some On_read_open)]"
    by (simp add: events_since_def w1(3))
  have "drive (e # es) R w = drive es R ?w1"
    using drive_step [OF assms(2) s, of e es] by (simp add: ev)
  then show thesis using w1 by (rule that)
qed

lemma read_stage_open:
  assumes "request w = Some req"
    and "pending w = Some (uv_fs_open (Some P) {UV_FS_O_RDONLY} 0, On_read_open)"
    and "files R P = Some D"
    and "int (length D) \<le> ECEWO_FS_MAX_FILE_SIZE"
    and "file_size req = of_nat (length D)"
  obtains
    (allocated) R1 w1 req1 buf fd where
      "drive (e # es) R w = drive es R1 w1"
      "files R1 P = Some D"
      "open_files R1 fd = Some (P, {UV_FS_O_RDONLY})"
      "request w1 = Some req1" "file' req1 = fd" "data req1 = Some buf"
      "length buf = length D + 1"
      "read_callback req1 = read_callback req" "user_data req1 = user_data req"
      "pending w1 = Some (uv_fs_read fd (length D) 0, On_read_data)"
      "invocations (events_since w w1) = []" "trace w1 = trace w @ events_since w w1"
      "transfer_limit R1 = transfer_limit R"
  | (no_memory) R1 w1 where
      "drive (e # es) R w = (R1, w1)"
      "\<forall>a\<in>set (events_since w w1). is_callback a \<longrightarrow> error_arg a \<noteq> None"
      "trace w1 = trace w @ events_since w w1"
proof -
  let ?fd = "int (next_fd R)"
  let ?R1 = "R\<lparr>files := (files R)(P \<mapsto> D), open_files := (open_files R)(?fd \<mapsto> (P, {UV_FS_O_RDONLY})),
               next_fd := next_fd R + 1\<rparr>"
  let ?w1 = "deliver e (completion ?fd) w"
  have s: "serve R (uv_fs_open (Some P) {UV_FS_O_RDONLY} 0) = Some (?R1, completion ?fd)"
    using assms(3) by (simp add: Let_def)
  note sz = payload_size [OF assms(4)]
  show thesis
  proof (cases "malloc_data_ok e")
    case True
    let ?req1 = "req\<lparr>file' := ?fd, data := Some (map (fresh_byte e) [0..<length D + 1])\<rparr>"
    have w1: "request ?w1 = Some ?req1"
      "pending ?w1 = Some (uv_fs_read ?fd (length D) 0, On_read_data)"
      "trace ?w1 = trace w @ [uv_fs_req_cleanup, Alloc_data (arena req) (length D + 1) True,
         Issue (uv_fs_read ?fd (length D) 0) (Some On_read_data)]"
      using assms(1,2,5) sz True
      by (simp_all add: deliver_def read_open_cb_def completion_def Let_def)
    have ev: "events_since w ?w1 = [uv_fs_req_cleanup, Alloc_data (arena req) (length D + 1) True,
         Issue (uv_fs_read ?fd (length D) 0) (Some On_read_data)]"
      by (simp add: events_since_def w1(3))
    have d: "drive (e # es) R w = drive es ?R1 ?w1"
      using drive_step [OF assms(2) s, of e es] by (simp add: ev)
    have x: "files ?R1 P = Some D" "open_files ?R1 ?fd = Some (P, {UV_FS_O_RDONLY})"
      "file' ?req1 = ?fd" "data ?req1 = Some (map (fresh_byte e) [0..<length D + 1])"
      "length (map (fresh_byte e) [0..<length D + 1]) = length D + 1"
      "read_callback ?req1 = read_callback req" "user_data ?req1 = user_data req"
      "invocations (events_since w ?w1) = []" "trace ?w1 = trace w @ events_since w ?w1"
      "transfer_limit ?R1 = transfer_limit R"
      by (simp_all add: ev w1(3))
    show ?thesis
      by (rule allocated [OF d x(1,2) w1(1) x(3,4,5,6,7) w1(2) x(8,9,10)])
  next
    case False
    have w1: "request ?w1 = None" "pending ?w1 = None"
      "trace ?w1 = trace w @ [uv_fs_req_cleanup, Alloc_data (arena req) (length D + 1) False,
         Issue (uv_fs_close ?fd) None] @
         (case read_callback req of None \<Rightarrow> []
          | Some f \<Rightarrow> [Call_read f (Some ''Memory allocation failed'') None 0 (user_data req)]) @
         frees (req\<lparr>file' := ?fd, data := None\<rparr>) False"
      using assms(1,2,5) sz False
      by (simp_all add: deliver_def read_open_cb_def completion_def Let_def)
    have ev: "events_since w ?w1 = [uv_fs_req_cleanup, Alloc_data (arena req) (length D + 1) False,
         Issue (uv_fs_close ?fd) None] @
         (case read_callback req of None \<Rightarrow> []
          | Some f \<Rightarrow> [Call_read f (Some ''Memory allocation failed'') None 0 (user_data req)]) @
         frees (req\<lparr>file' := ?fd, data := None\<rparr>) False"
      by (simp add: events_since_def w1(3))
    have d: "drive (e # es) R w = (apply_sync (events_since w ?w1) ?R1, ?w1)"
      using drive_step [OF assms(2) s, of e es] by (simp add: drive_idle w1(2))
    show ?thesis
      by (rule no_memory [OF d]) (auto simp: ev w1(3) frees_def split: option.splits)
  qed
qed

lemma store_then_terminate:
  assumes "length buf = length D + 1"
  shows "(store_bytes D buf)[length D := 0] = D @ [0]"
proof -
  from assms obtain x where d: "drop (length D) buf = [x]"
    by (cases "drop (length D) buf") (auto simp: drop_eq_Nil dest: arg_cong [where f = length])
  have "store_bytes D buf = D @ [x]"
    using assms by (simp add: store_bytes_def d)
  then show ?thesis by (simp add: list_update_append)
qed

lemma read_stage_data:
  assumes "request w = Some req"
    and "pending w = Some (uv_fs_read fd (length D) 0, On_read_data)"
    and "open_files R fd = Some (P, {UV_FS_O_RDONLY})"
    and "files R P = Some D"
    and "data req = Some buf" and "length buf = length D + 1"
    and "int (length D) \<le> ECEWO_FS_MAX_FILE_SIZE"
    and "length D \<le> transfer_limit R"
  obtains w1 req1 where
    "drive (e # es) R w = drive es R w1"
    "request w1 = Some req1" "file' req1 = file' req"
    "data req1 = Some (D @ [0])" "size' req1 = of_nat (length D)"
    "read_callback req1 = read_callback req" "user_data req1 = user_data req"
    "pending w1 = Some (uv_fs_close (file' req), On_read_close)"
    "trace w1 = trace w @ [uv_fs_req_cleanup,
       Issue (uv_fs_close (file' req)) (Some On_read_close)]"
proof -
  let ?uv = "(completion (int (length D)))\<lparr>filled := D\<rparr>"
  let ?w1 = "deliver e ?uv w"
  let ?req1 = "req\<lparr>data := Some (D @ [0]), size' := of_nat (length D)\<rparr>"
  have s: "serve R (uv_fs_read fd (length D) 0) = Some (R, ?uv)"
    using assms(3,4,8) by (simp add: Let_def min_absorb1)
  have w1: "request ?w1 = Some ?req1"
    "pending ?w1 = Some (uv_fs_close (file' req), On_read_close)"
    "trace ?w1 = trace w @ [uv_fs_req_cleanup,
       Issue (uv_fs_close (file' req)) (Some On_read_close)]"
    using assms(1,2,5) store_then_terminate [OF assms(6)] payload_size(1) [OF assms(7)]
    by (simp_all add: deliver_def read_data_cb_def completion_def Let_def)
  have ev: "events_since w ?w1 = [uv_fs_req_cleanup,
       Issue (uv_fs_close (file' req)) (Some On_read_close)]"
    by (simp add: events_since_def w1(3))
  have d: "drive (e # es) R w = drive es R ?w1"
    using drive_step [OF assms(2) s, of e es] by (simp add: ev)
  have x: "file' ?req1 = file' req" "data ?req1 = Some (D @ [0])"
    "size' ?req1 = of_nat (length D)" "read_callback ?req1 = read_callback req"
    "user_data ?req1 = user_data req"
    by simp_all
  show thesis
    by (rule that [OF d w1(1) x w1(2,3)])
qed

lemma read_stage_close:
  assumes "request w = Some req"
    and "pending w = Some (uv_fs_close fd, On_read_close)"
    and "open_files R fd = Some x"
  obtains R1 w1 where
    "drive (e # es) R w = (R1, w1)"
    "trace w1 = trace w @
       [uv_fs_req_cleanup] @
       (case read_callback req of None \<Rightarrow> []
        | Some f \<Rightarrow> [Call_read f None (data req) (size' req) (user_data req)]) @
       frees req False"
proof -
  let ?R1 = "R\<lparr>open_files := (open_files R)(fd := None)\<rparr>"
  let ?w1 = "deliver e (completion 0) w"
  have s: "serve R (uv_fs_close fd) = Some (?R1, completion 0)"
    using assms(3) by simp
  have w1: "request ?w1 = None" "pending ?w1 = None"
    "trace ?w1 = trace w @
       [uv_fs_req_cleanup] @
       (case read_callback req of None \<Rightarrow> []
        | Some f \<Rightarrow> [Call_read f None (data req) (size' req) (user_data req)]) @
       frees req False"
    using assms
    by (simp_all add: deliver_def read_close_cb_def Let_def)
  have "drive (e # es) R w = (apply_sync (events_since w ?w1) ?R1, ?w1)"
    using drive_step [OF assms(2) s, of e es] by (simp add: drive_idle w1(2))
  then show thesis using w1(3) by (rule that)
qed


lemma not_in_frees [simp]: "is_callback a \<Longrightarrow> a \<notin> set (frees req b)"
  by (auto simp: frees_def)

lemma read_phase:
  assumes len: "int (length D) \<le> ECEWO_FS_MAX_FILE_SIZE"
    and fileD: "files R P = Some D"
    and full: "length D \<le> transfer_limit R"
    and run: "perform e es (Read_file (Some P) a cb ud) later R w = (r, R', w')"
    and ok: "Call_read f None buf n ud' \<in> set (events_since w w')"
  shows "buf = Some (D @ [0]) \<and> n = of_nat (length D)"
proof -
  let ?ok = "Call_read f None buf n ud'"
  have cbk: "is_callback ?ok" "error_arg ?ok = None" by simp_all
  obtain r0 w0 where inv: "fs_read_file e (Some P) a cb ud w = (r0, w0)"
    by (cases "fs_read_file e (Some P) a cb ud w")
  show ?thesis
  proof (cases "r0 = 0")
    case False
    with run inv have "w' = w0" by (simp add: perform_def)
    with rejected_has_no_success [OF fs_read_file_entry [OF inv] False cbk] ok
    show ?thesis by simp
  next
    case True
    with run inv have dr: "drive es R (w0\<lparr>caller_mem := later\<rparr>) = (R', w')"
      by (auto simp: perform_def split: prod.splits)
    from fs_read_file_accepted [OF inv [unfolded True]]
    obtain req where req: "request w0 = Some req" "path req = Some P"
      "read_callback req = cb" "user_data req = ud"
      and p0: "pending w0 = Some (uv_fs_stat (Some P), On_read_stat)"
      and t0: "trace w0 = trace w @ [Alloc_req True, Issue (uv_fs_stat (Some P)) (Some On_read_stat)]"
      by (auto simp: calloc_fs_request_t_def)
    define v0 where "v0 = w0\<lparr>caller_mem := later\<rparr>"
    have rq: "request v0 = Some req" and pv: "pending v0 = Some (uv_fs_stat (Some P), On_read_stat)"
      and tv: "trace v0 = trace w @ [Alloc_req True, Issue (uv_fs_stat (Some P)) (Some On_read_stat)]"
      and dv: "drive es R v0 = (R', w')"
      using req(1) p0 t0 dr by (simp_all add: v0_def)
    show ?thesis
    proof (cases es)
      case Nil
      with dv have "w' = v0" by simp
      with ok tv show ?thesis by (simp add: events_since_def)
    next
      case es: (Cons e1 es1)
      from read_stage_stat [OF rq pv fileD len req(2), of e1 es1]
      obtain w1 where s1: "drive (e1 # es1) R v0 = drive es1 R w1"
        "request w1 = Some (req\<lparr>file_size := of_nat (length D)\<rparr>)"
        "pending w1 = Some (uv_fs_open (Some P) {UV_FS_O_RDONLY} 0, On_read_open)"
        "trace w1 = trace v0 @ [uv_fs_req_cleanup,
           Issue (uv_fs_open (Some P) {UV_FS_O_RDONLY} 0) (Some On_read_open)]"
        by blast
      from dv es s1(1) have dr1: "drive es1 R w1 = (R', w')" by simp
      have t1: "trace w1 = trace w @
          [Alloc_req True, Issue (uv_fs_stat (Some P)) (Some On_read_stat), uv_fs_req_cleanup,
           Issue (uv_fs_open (Some P) {UV_FS_O_RDONLY} 0) (Some On_read_open)]"
        using tv s1(4) by simp
      show ?thesis
      proof (cases es1)
        case Nil
        with dr1 have "w' = w1" by simp
        with ok t1 show ?thesis by (simp add: events_since_def)
      next
        case es1: (Cons e2 es2)
        have fsz: "file_size (req\<lparr>file_size := of_nat (length D)\<rparr>) = of_nat (length D)"
          by simp
        from s1(2,3) fileD len fsz show ?thesis
        proof (cases rule: read_stage_open [where e = e2 and es = es2])
          case (no_memory R2 w2)
          with dr1 es1 have w': "w' = w2" by simp
          from no_memory(2) cbk have "?ok \<notin> set (events_since w1 w2)" by auto
          moreover have "events_since w w2 =
              [Alloc_req True, Issue (uv_fs_stat (Some P)) (Some On_read_stat), uv_fs_req_cleanup,
               Issue (uv_fs_open (Some P) {UV_FS_O_RDONLY} 0) (Some On_read_open)] @
              events_since w1 w2"
            by (rule events_since_trans [OF t1 no_memory(3)])
          ultimately show ?thesis using ok unfolding w' by simp
        next
          case (allocated R2 w2 req2 buf2 fd)
          have full2: "length D \<le> transfer_limit R2" using full allocated(13) by simp
          from dr1 es1 allocated(1) have dr2: "drive es2 R2 w2 = (R', w')" by simp
          have ev2: "events_since w w2 =
              [Alloc_req True, Issue (uv_fs_stat (Some P)) (Some On_read_stat), uv_fs_req_cleanup,
               Issue (uv_fs_open (Some P) {UV_FS_O_RDONLY} 0) (Some On_read_open)] @
              events_since w1 w2"
            by (rule events_since_trans [OF t1 allocated(12)])
          have t2: "trace w2 = trace w @ events_since w w2"
            by (rule trace_trans' [OF t1 allocated(12)])
          have n2: "?ok \<notin> set (events_since w w2)"
            using no_callback_in [OF allocated(11) cbk(1)] by (simp add: ev2)
          show ?thesis
          proof (cases es2)
            case Nil
            with dr2 have "w' = w2" by simp
            with ok n2 show ?thesis by simp
          next
            case es2: (Cons e3 es3)
            from read_stage_data [OF allocated(4,10,3,2,6,7) len full2, of e3 es3]
            obtain w3 req3 where s3: "drive (e3 # es3) R2 w2 = drive es3 R2 w3"
              "request w3 = Some req3" "file' req3 = file' req2"
              "data req3 = Some (D @ [0])" "size' req3 = of_nat (length D)"
              "read_callback req3 = read_callback req2" "user_data req3 = user_data req2"
              "pending w3 = Some (uv_fs_close (file' req2), On_read_close)"
              "trace w3 = trace w2 @ [uv_fs_req_cleanup,
                 Issue (uv_fs_close (file' req2)) (Some On_read_close)]"
              by blast
            from dr2 es2 s3(1) have dr3: "drive es3 R2 w3 = (R', w')" by simp
            have ev3: "events_since w w3 = events_since w w2 @ [uv_fs_req_cleanup,
                 Issue (uv_fs_close (file' req2)) (Some On_read_close)]"
              by (rule events_since_trans [OF t2 s3(9)])
            have t3: "trace w3 = trace w @ events_since w w3"
              by (rule trace_trans' [OF t2 s3(9)])
            show ?thesis
            proof (cases es3)
              case Nil
              with dr3 have "w' = w3" by simp
              with ok n2 ev3 show ?thesis by simp
            next
              case es3: (Cons e4 es4)
              have o: "open_files R2 (file' req2) = Some (P, {UV_FS_O_RDONLY})"
                using allocated(3,5) by simp
              from read_stage_close [OF s3(2,8) o, of e4 es4]
              obtain R4 w4 where s4: "drive (e4 # es4) R2 w3 = (R4, w4)"
                "trace w4 = trace w3 @
                   [uv_fs_req_cleanup] @
                   (case read_callback req3 of None \<Rightarrow> []
                    | Some f \<Rightarrow> [Call_read f None (data req3) (size' req3) (user_data req3)]) @
                   frees req3 False"
                by blast
              from dr3 es3 s4(1) have w': "w' = w4" by simp
              have "events_since w w4 = events_since w w3 @
                   [uv_fs_req_cleanup] @
                   (case read_callback req3 of None \<Rightarrow> []
                    | Some f \<Rightarrow> [Call_read f None (data req3) (size' req3) (user_data req3)]) @
                   frees req3 False"
                by (rule events_since_trans [OF t3 s4(2)])
              with ok n2 s3(4,5) show ?thesis
                unfolding w' ev3 by (auto split: option.splits)
            qed
          qed
        qed
      qed
    qed
  qed
qed

text \<open>
  The engine takes any non-negative result of the write as success and goes on to close
  the file; it does not compare the count with the size it asked for.
\<close>

lemma write_data_cb_accepts_any_count:
  "0 \<le> result uv \<Longrightarrow>
   request (write_data_cb e uv req w) = Some (req\<lparr>size' := word_of_int (result uv)\<rparr>) \<and>
   pending (write_data_cb e uv req w) = Some (uv_fs_close (file' req), On_write_close)"
  by (simp add: write_data_cb_def Let_def)

text \<open>
  Claim C7, as stated, fails when the reactor transfers less than it was asked to. The
  payload is the three bytes \<open>104, 105, 33\<close>; the reactor writes two of them and reports
  2. The engine takes that as success and invokes the write callback with a null error.
  The read that follows succeeds too and delivers the two bytes \<open>104, 105\<close> followed by a
  zero byte, with the length 2: the buffer's first three bytes are not the payload and
  the reported length is not 3.
\<close>

theorem short_write_breaks_round_trip_counterexample:
  "int (length payload0) \<le> ECEWO_FS_MAX_FILE_SIZE \<and>
   payload0 = [104, 105, 33] \<and>
   take (length payload0) (caller_mem world_payload 7) = payload0 \<and>
   written_short =
     perform env_ok [env_ok, env_ok, env_ok]
       (Write_file (Some ''a.txt'') (Some 7) (of_nat (length payload0)) (Some 1) 0)
       overwritten (reactor0\<lparr>transfer_limit := 2\<rparr>) world_payload \<and>
   fst written_short = 0 \<and>
   Call_write 1 None 0 \<in> set (events_since world_payload (snd (snd written_short))) \<and>
   files (fst (snd written_short)) ''a.txt'' = Some [104, 105] \<and>
   read_back_short =
     perform env_ok [env_ok, env_ok, env_ok, env_ok]
       (Read_file (Some ''a.txt'') None (Some 2) 0) overwritten (fst (snd written_short))
       world0 \<and>
   fst read_back_short = 0 \<and>
   invocations (events_since world0 (snd (snd read_back_short))) =
     [Call_read 2 None (Some [104, 105, 0]) 2 0]"
proof -
  have a: "int (length payload0) \<le> ECEWO_FS_MAX_FILE_SIZE"
    by (simp add: payload0_def ECEWO_FS_MAX_FILE_SIZE_def)
  have b: "payload0 = [104, 105, 33]"
    by (rule payload0_def)
  have c: "take (length payload0) (caller_mem world_payload 7) = payload0"
    by (simp add: payload0_def world_payload_def)
  have d: "written_short =
     perform env_ok [env_ok, env_ok, env_ok]
       (Write_file (Some ''a.txt'') (Some 7) (of_nat (length payload0)) (Some 1) 0)
       overwritten (reactor0\<lparr>transfer_limit := 2\<rparr>) world_payload"
    by (rule written_short_def)
  have e: "fst written_short = 0"
    by code_simp
  have f: "Call_write 1 None 0 \<in> set (events_since world_payload (snd (snd written_short)))"
    by code_simp
  have g: "files (fst (snd written_short)) ''a.txt'' = Some [104, 105]"
    by code_simp
  have h: "read_back_short =
     perform env_ok [env_ok, env_ok, env_ok, env_ok]
       (Read_file (Some ''a.txt'') None (Some 2) 0) overwritten (fst (snd written_short))
       world0"
    by (rule read_back_short_def)
  have i: "fst read_back_short = 0"
    by code_simp
  have j: "invocations (events_since world0 (snd (snd read_back_short))) =
     [Call_read 2 None (Some [104, 105, 0]) 2 0]"
    by code_simp
  show ?thesis
    by (rule conjI [OF a conjI [OF b conjI [OF c conjI [OF d conjI [OF e conjI [OF f
          conjI [OF g conjI [OF h conjI [OF i j]]]]]]]]])
qed

text \<open>
  Claim C7, amended. Over the reactor of files held in memory, for every path \<open>P\<close> and
  payload \<open>D\<close> with \<open>length D \<le> ECEWO_FS_MAX_FILE_SIZE\<close>, provided the reactor transfers a
  request of \<open>length D\<close> bytes in full: let \<open>D\<close> be the first \<open>length D\<close> bytes at the
  caller's pointer when \<open>fs_write_file(P, pointer, length D)\<close> is called, and let the
  caller store anything whatever into its memory once the call has returned. If the
  write, run to its end, invokes its callback with a null error, and \<open>fs_read_file(P)\<close>
  run on the reactor state the write left invokes its callback with a null error, a
  buffer and a length, then the buffer is \<open>D\<close> followed by a zero byte (so its first
  \<open>length D\<close> bytes are \<open>D\<close>) and the length is \<open>length D\<close>.

  The payload is copied when the call is made. The write allocated a buffer of
  \<open>length D\<close> bytes for the Record; as soon as the entry point has returned 0 that buffer
  holds \<open>D\<close>; and the bytes handed to the reactor's write are \<open>D\<close>, whatever the caller's
  memory holds by then.
\<close>

theorem write_then_read_round_trip:
  assumes len: "int (length D) \<le> ECEWO_FS_MAX_FILE_SIZE"
    and mem: "take (length D) (caller_mem w0 a) = D"
    and full: "length D \<le> transfer_limit R0"
    and wr: "perform e1 es1 (Write_file (Some P) (Some a) (of_nat (length D)) cb1 ud1)
               later1 R0 w0 = (r1, R1, w1)"
    and wrote: "Call_write f1 None ud1' \<in> set (events_since w0 w1)"
    and rd: "perform e2 es2 (Read_file (Some P) ar cb2 ud2) later2 R1 w2 = (r2, R2, w3)"
    and got: "Call_read f2 None buf n ud2' \<in> set (events_since w2 w3)"
  shows "(\<exists>b. buf = Some b \<and> take (length D) b = D \<and> b = D @ [0]) \<and>
         n = of_nat (length D) \<and> unat n = length D \<and>
         Alloc_data None (length D) True \<in> set (events_since w0 w1) \<and>
         (\<exists>fd. Issue (uv_fs_write fd (Some D) (length D) 0) (Some On_write_data)
                 \<in> set (events_since w0 w1)) \<and>
         (\<forall>w'. fs_write_file e1 (Some P) (Some a) (of_nat (length D)) cb1 ud1 w0 = (0, w') \<longrightarrow>
               map_option data (request w') = Some (Some D))"
proof -
  from write_phase [OF len mem full wr wrote]
  have file1: "files R1 P = Some D"
    and alloc: "Alloc_data None (length D) True \<in> set (events_since w0 w1)"
    and handed: "\<exists>fd. Issue (uv_fs_write fd (Some D) (length D) 0) (Some On_write_data)
                 \<in> set (events_since w0 w1)"
    by simp_all
  have full1: "length D \<le> transfer_limit R1"
    using full perform_limit [OF wr] by simp
  from read_phase [OF len file1 full1 rd got] payload_size(1) [OF len]
  have trip: "(\<exists>b. buf = Some b \<and> take (length D) b = D \<and> b = D @ [0]) \<and>
         n = of_nat (length D) \<and> unat n = length D"
    by simp
  have copy: "\<forall>w'. fs_write_file e1 (Some P) (Some a) (of_nat (length D)) cb1 ud1 w0 = (0, w') \<longrightarrow>
               map_option data (request w') = Some (Some D)"
  proof (intro allI impI)
    fix w'
    assume "fs_write_file e1 (Some P) (Some a) (of_nat (length D)) cb1 ud1 w0 = (0, w')"
    from fs_write_internal_copies [OF this [unfolded fs_write_file_def] len mem]
    show "map_option data (request w') = Some (Some D)" by auto
  qed
  from trip alloc handed copy show ?thesis by blast
qed

theorem write_then_read_round_trip_witness:
  "int (length payload0) \<le> ECEWO_FS_MAX_FILE_SIZE \<and>
   take (length payload0) (caller_mem world_payload 7) = payload0 \<and>
   length payload0 \<le> transfer_limit reactor0 \<and>
   caller_mem world_payload 7 = [104, 105, 33, 1, 2] \<and>
   overwritten 7 = [0, 0, 0, 0, 0] \<and>
   Call_write 1 None 0 \<in> set (events_since world_payload (snd (snd written0))) \<and>
   Call_read 2 None (Some [104, 105, 33, 0]) 3 0 \<in>
     set (events_since world0 (snd (snd read_back0))) \<and>
   Alloc_data None (length payload0) True \<in>
     set (events_since world_payload (snd (snd written0)))"
proof -
  have len: "int (length payload0) \<le> ECEWO_FS_MAX_FILE_SIZE"
    by (simp add: payload0_def ECEWO_FS_MAX_FILE_SIZE_def)
  have mem: "take (length payload0) (caller_mem world_payload 7) = payload0"
    by (simp add: payload0_def world_payload_def)
  have full: "length payload0 \<le> transfer_limit reactor0"
    by (simp add: payload0_def reactor0_def)
  have before: "caller_mem world_payload 7 = [104, 105, 33, 1, 2]"
    by (simp add: payload0_def world_payload_def)
  have after: "overwritten 7 = [0, 0, 0, 0, 0]"
    by (simp add: overwritten_def)
  have wr: "perform env_ok [env_ok, env_ok, env_ok]
       (Write_file (Some ''a.txt'') (Some 7) (of_nat (length payload0)) (Some 1) 0)
       overwritten reactor0 world_payload = (fst written0, fst (snd written0), snd (snd written0))"
    by (simp add: written0_def)
  have wrote: "Call_write 1 None 0 \<in> set (events_since world_payload (snd (snd written0)))"
    by code_simp
  have rd: "perform env_ok [env_ok, env_ok, env_ok, env_ok]
       (Read_file (Some ''a.txt'') None (Some 2) 0) overwritten (fst (snd written0)) world0 =
       (fst read_back0, fst (snd read_back0), snd (snd read_back0))"
    by (simp add: read_back0_def)
  have got: "Call_read 2 None (Some [104, 105, 33, 0]) 3 0 \<in>
     set (events_since world0 (snd (snd read_back0)))"
    by code_simp
  from write_then_read_round_trip [OF len mem full wr wrote rd got]
  have alloc: "Alloc_data None (length payload0) True \<in>
          set (events_since world_payload (snd (snd written0)))"
    by (elim conjE)
  show ?thesis
    by (rule conjI [OF len conjI [OF mem conjI [OF full conjI [OF before conjI [OF after
          conjI [OF wrote conjI [OF got alloc]]]]]]])
qed

end
